theory Spec2Isabelle
  imports Complex_Main
begin

section \<open>Linac QA management system: data model\<close>

text \<open>
  The development follows \<^verbatim>\<open>models.py\<close> (tables and the checklist registry),
  \<^verbatim>\<open>auth.py\<close> (current user, audit trail) and \<^verbatim>\<open>main.py\<close> (the request
  handlers). Dates are Python \<^verbatim>\<open>datetime.date\<close> values, represented by their
  proleptic ordinal (an integer number of days), so that \<^verbatim>\<open>(a - b).days\<close> is
  integer subtraction and date comparison is integer comparison. Python floats are
  represented by the real numbers they denote; rounding to double precision is not
  modelled, and no statement is about the value of a float computation. Primary keys
  and foreign keys are Python integers.
\<close>

type_synonym date = int

subsection \<open>The checklist registry \<^verbatim>\<open>SASQART_TESTS\<close>\<close>

text \<open>
  Each entry of \<^verbatim>\<open>SASQART_TESTS\<close> is a dictionary with the keys \<^verbatim>\<open>id\<close>,
  \<^verbatim>\<open>description\<close>, \<^verbatim>\<open>tolerance\<close> and \<^verbatim>\<open>action\<close>. Strings are byte lists;
  the two non-ASCII characters of the table (the en dash and the degree sign) are
  written as their UTF-8 bytes.
\<close>

record test_def =
  item_id :: string
  description :: string
  tolerance :: string
  action :: string

definition mk_test :: "string \<Rightarrow> string \<Rightarrow> string \<Rightarrow> string \<Rightarrow> test_def" where
  "mk_test i d t a = \<lparr>item_id = i, description = d, tolerance = t, action = a\<rparr>"

definition en_dash :: string where
  "en_dash = [CHR 0xE2, CHR 0x80, CHR 0x93]"

definition degree_sign :: string where
  "degree_sign = [CHR 0xC2, CHR 0xB0]"

definition daily_tests :: "test_def list" where
  "daily_tests =
    [mk_test ''DL1'' ''Door interlock'' ''Functional'' ''Functional'',
     mk_test ''DL2'' ''Radiation beam status indicators'' ''Functional'' ''Functional'',
     mk_test ''DL3'' ''Audio-visual monitor'' ''Functional'' ''Functional'',
     mk_test ''DL4'' ''Gantry/collimator motion interlock'' ''Functional'' ''Functional'',
     mk_test ''DL5'' ''Couch motion/brakes'' ''Functional'' ''Functional'',
     mk_test ''DL6'' ''Radiation area monitors'' ''Functional'' ''Functional'',
     mk_test ''DL7'' ''Beam interrupt devices'' ''Functional'' ''Functional'',
     mk_test ''DL8'' (''Output constancy '' @ en_dash @ '' photons'') ''2.00%'' ''3.00%'',
     mk_test ''DL9'' (''Output constancy '' @ en_dash @ '' electrons'') ''2.00%'' ''3.00%'']"

definition monthly_tests :: "test_def list" where
  "monthly_tests =
    [mk_test ''ML1'' ''Emergency off switches'' ''Functional'' ''Functional'',
     mk_test ''ML2'' ''Lasers and crosswires'' ''1 mm'' ''2 mm'',
     mk_test ''ML3'' ''Optical distance indicator'' ''1 mm'' ''2 mm'',
     mk_test ''ML4'' ''Radiation/light field size'' ''1 mm'' ''2 mm'',
     mk_test ''ML5'' ''Physical/dynamic wedge factors'' ''1%'' ''2%'',
     mk_test ''ML6'' ''Gantry angle indicators'' (''0.5'' @ degree_sign) (''1'' @ degree_sign),
     mk_test ''ML7'' ''Collimator angle indicators'' (''0.5'' @ degree_sign) (''1'' @ degree_sign),
     mk_test ''ML8'' ''Couch position indicators'' ''1 mm'' ''2 mm'',
     mk_test ''ML9'' ''Couch rotation isocentre'' ''1 mm'' ''2 mm'',
     mk_test ''ML10'' ''Couch angle indicator'' (''0.5'' @ degree_sign) (''1'' @ degree_sign),
     mk_test ''ML11'' ''Collimator rotation isocentre'' ''1 mm'' ''2 mm'',
     mk_test ''ML12'' ''Light/radiation field coincidence'' ''1 mm'' ''2 mm'',
     mk_test ''ML13'' ''Beam flatness constancy'' ''1%'' ''2%'',
     mk_test ''ML14'' ''Beam symmetry constancy'' ''1%'' ''2%'',
     mk_test ''ML15'' ''Relative dosimetry constancy'' ''1%'' ''2%'',
     mk_test ''ML16'' ''Accuracy of QA records'' ''Complete'' ''Complete'']"

definition quarterly_tests :: "test_def list" where
  "quarterly_tests =
    [mk_test ''Q1'' ''Central axis depth dose reproducibility'' ''1%/2mm'' ''2%/3mm'']"

definition annual_tests :: "test_def list" where
  "annual_tests =
    [mk_test ''AL1'' ''Accessory mechanical integrity'' ''Safe'' ''Safe'',
     mk_test ''AL2'' ''Accessory interlocks'' ''Functional'' ''Functional'',
     mk_test ''AL3'' ''ODI at extended distances'' ''1 mm'' ''2 mm'',
     mk_test ''AL4'' ''Light/rad coincidence vs gantry'' ''1 mm'' ''2 mm'',
     mk_test ''AL5'' ''Field size vs gantry angle'' ''1 mm'' ''2 mm'',
     mk_test ''AL6'' ''TRS-398 calibration'' ''1%'' ''2%'',
     mk_test ''AL7'' ''Output factors'' ''1%'' ''2%'',
     mk_test ''AL8'' ''Wedge transmission and profiles'' ''1%'' ''2%'',
     mk_test ''AL9'' ''Accessory transmission factors'' ''1%'' ''2%'',
     mk_test ''AL10'' ''Output vs gantry angle'' ''1%'' ''2%'',
     mk_test ''AL11'' ''Symmetry vs gantry angle'' ''1%'' ''2%'',
     mk_test ''AL12'' ''Monitor unit linearity'' ''1%'' ''2%'',
     mk_test ''AL13'' ''Monitor unit end effect'' ''< 1 MU'' ''< 2 MU'',
     mk_test ''AL14'' ''Collimator rotation isocentre'' ''1 mm'' ''2 mm'',
     mk_test ''AL15'' ''Gantry rotation isocentre'' ''1 mm'' ''2 mm'',
     mk_test ''AL16'' ''Couch rotation isocentre'' ''1 mm'' ''2 mm'',
     mk_test ''AL17'' ''Coincidence of axes'' ''1 mm'' ''2 mm'',
     mk_test ''AL18'' ''Independent review'' ''Complete'' ''Complete'']"

text \<open>
  The registry is a module-level dictionary; a lookup \<^verbatim>\<open>SASQART_TESTS[qa_type]\<close>
  with an unknown key raises \<^verbatim>\<open>KeyError\<close>, which is \<open>None\<close> here.
\<close>

definition SASQART_TESTS :: "string \<rightharpoonup> test_def list" where
  "SASQART_TESTS =
     [''daily'' \<mapsto> daily_tests, ''monthly'' \<mapsto> monthly_tests,
      ''quarterly'' \<mapsto> quarterly_tests, ''annual'' \<mapsto> annual_tests]"

subsection \<open>Tables\<close>

text \<open>
  One record per table of \<^verbatim>\<open>models.py\<close>; field names carry the table's prefix
  since several tables share column names. Columns declared \<^verbatim>\<open>nullable=False\<close>
  hold a value; the other text columns may hold \<^verbatim>\<open>None\<close>. The timestamp columns
  (\<^verbatim>\<open>created_at\<close>, \<^verbatim>\<open>updated_at\<close>, \<^verbatim>\<open>last_login\<close>, \<^verbatim>\<open>timestamp\<close>) and the
  credential columns of \<^verbatim>\<open>User\<close> are read by none of the handlers below and are
  left out.
\<close>

record User =
  us_id :: int
  us_username :: string
  us_role :: string
  us_active :: bool

record Unit =
  u_id :: int
  u_name :: string
  u_manufacturer :: "string option"
  u_model :: "string option"
  u_serial_number :: "string option"
  u_location :: "string option"
  u_install_date :: "date option"
  u_photon_energies :: "string list"
  u_electron_energies :: "string list"
  u_fff_energies :: "string list"
  u_active :: bool

record QAReport =
  r_id :: int
  r_date :: date
  r_qa_type :: string
  r_unit_id :: int
  r_performer :: string
  r_witness :: string
  r_comments :: string
  r_signature :: string
  r_created_by :: int

record QATest =
  t_id :: int
  t_report_id :: int
  t_test_id :: string
  t_status :: string
  t_notes :: string
  t_measurement :: "real option"

record OutputReading =
  o_id :: int
  o_date :: date
  o_unit_id :: int
  o_energy :: string
  o_reading :: real
  o_reference :: real
  o_deviation :: real

record AuditLog =
  a_id :: int
  a_user :: string
  a_action :: string
  a_details :: string
  a_ip_address :: string

record store =
  users :: "User list"
  units :: "Unit list"
  qa_reports :: "QAReport list"
  qa_tests :: "QATest list"
  output_readings :: "OutputReading list"
  audit_log :: "AuditLog list"

definition all_photon_energies :: "Unit \<Rightarrow> string list" where
  "all_photon_energies u = u_photon_energies u @ u_fff_energies u"

subsection \<open>Requests, library functions, failures\<close>

text \<open>
  The handlers call library code that is not part of the repository. It is a
  parameter of the model:
  \<^item> \<open>strptime\<close> is \<^verbatim>\<open>datetime.strptime(s, "%Y-%m-%d").date()\<close>, \<open>None\<close> for \<^verbatim>\<open>ValueError\<close>;
  \<^item> \<open>py_int\<close> is \<^verbatim>\<open>int(s)\<close> on a string, \<open>None\<close> for \<^verbatim>\<open>ValueError\<close>;
  \<^item> \<open>isoformat\<close> is \<^verbatim>\<open>str\<close> of a date, \<open>upper\<close> is \<^verbatim>\<open>str.upper\<close>, \<open>strip\<close> is \<^verbatim>\<open>str.strip\<close>;
  \<^item> \<open>foreign_keys\<close> says whether the database engine enforces the declared
    \<^verbatim>\<open>ForeignKey\<close> constraints. The engine of \<^verbatim>\<open>database.py\<close> is SQLite, created with
    no connection option but \<^verbatim>\<open>check_same_thread\<close>; SQLite enforces foreign keys only
    after \<^verbatim>\<open>PRAGMA foreign_keys=ON\<close>, which nothing in the repository issues, so the
    shipped configuration has \<open>foreign_keys = False\<close>. \<^verbatim>\<open>NOT NULL\<close>, \<^verbatim>\<open>UNIQUE\<close>
    and primary keys are enforced by every engine.
\<close>

record env =
  strptime :: "string \<Rightarrow> date option"
  py_int :: "string \<Rightarrow> int option"
  isoformat :: "date \<Rightarrow> string"
  upper :: "string \<Rightarrow> string"
  strip :: "string \<Rightarrow> string"
  foreign_keys :: bool

text \<open>
  A JSON value as \<^verbatim>\<open>request.json()\<close> returns it. Arrays and objects occur only as
  values that the handlers cannot use, so they are one constructor.
\<close>

datatype json = JNull | JBool bool | JInt int | JFloat real | JStr string | JContainer

text \<open>
  A request carries the outcome of \<^verbatim>\<open>verify_session_token\<close> on the session cookie
  (the \<^verbatim>\<open>user_id\<close> of the token, or \<open>None\<close> when the cookie is missing or invalid),
  the submitted form, the JSON body and the client address.
\<close>

record request =
  session_user_id :: "int option"
  form :: "string \<rightharpoonup> string"
  json_body :: "string \<rightharpoonup> json"
  client_host :: string

datatype error =
    TypeError | ValueError | KeyError | AttributeError | ZeroDivisionError
  | OverflowError | IntegrityError | DBAPIError | HTTPException nat

record qa_status =
  st_unit :: Unit
  last_daily :: "date option"
  last_monthly :: "date option"
  daily_due :: bool
  monthly_due :: bool

datatype response =
    RedirectResponse string
  | OutputSaved int real
  | DashboardPage "qa_status list"
  | HistoryPage "QAReport list"
  | TrendsPage "(string \<times> real) list"
  | UnitJson Unit

subsection \<open>Database primitives\<close>

text \<open>
  An integer primary key takes the successor of the largest key of the table (1 on an
  empty table). \<^verbatim>\<open>.first()\<close> is the head of the result or \<^verbatim>\<open>None\<close>.
  SQL leaves the order of rows with equal keys to the engine. SQLite answers
  \<^verbatim>\<open>order_by(col)\<close> on the indexed date columns in index order, which is a stable
  sort on the column, and \<^verbatim>\<open>order_by(col.desc())\<close> in reverse index order, in
  which rows with equal keys come in reverse insertion order.
\<close>

text \<open>
  SQLite integers are signed 64-bit: binding a Python integer outside that range to a
  statement, an insert or a query alike, raises \<^verbatim>\<open>OverflowError\<close> before the
  statement runs.
\<close>

definition sqlite_int :: "int \<Rightarrow> bool" where
  "sqlite_int i = (- (2 ^ 63) \<le> i \<and> i < 2 ^ 63)"

definition next_id :: "int list \<Rightarrow> int" where
  "next_id ids = fold max ids 0 + 1"

definition first :: "'a list \<Rightarrow> 'a option" where
  "first xs = (case xs of [] \<Rightarrow> None | x # _ \<Rightarrow> Some x)"

definition order_by :: "('a \<Rightarrow> int) \<Rightarrow> 'a list \<Rightarrow> 'a list" where
  "order_by col rows = sort_key col rows"

definition order_by_desc :: "('a \<Rightarrow> int) \<Rightarrow> 'a list \<Rightarrow> 'a list" where
  "order_by_desc col rows = rev (sort_key col rows)"

definition form_get :: "request \<Rightarrow> string \<Rightarrow> string \<Rightarrow> string" where
  "form_get req key dflt = (case form req key of None \<Rightarrow> dflt | Some v \<Rightarrow> v)"

subsection \<open>\<^verbatim>\<open>auth.py\<close>\<close>

definition get_current_user :: "request \<Rightarrow> store \<Rightarrow> User option" where
  "get_current_user req db =
     (case session_user_id req of
        None \<Rightarrow> None
      | Some uid \<Rightarrow>
          (case first (filter (\<lambda>u. us_id u = uid) (users db)) of
             None \<Rightarrow> None
           | Some user \<Rightarrow> if us_active user then Some user else None))"

definition log_audit :: "store \<Rightarrow> string \<Rightarrow> string \<Rightarrow> string \<Rightarrow> string \<Rightarrow> store" where
  "log_audit db user act details ip_address =
     db\<lparr>audit_log := audit_log db @
          [\<lparr>a_id = next_id (map a_id (audit_log db)), a_user = user, a_action = act,
            a_details = details, a_ip_address = ip_address\<rparr>]\<rparr>"

subsection \<open>\<^verbatim>\<open>save_qa_report\<close>: POST /qa/{qa_type}\<close>

text \<open>
  The constructor call \<^verbatim>\<open>QAReport(...)\<close> evaluates its arguments in order:
  \<^verbatim>\<open>strptime\<close> raises \<^verbatim>\<open>TypeError\<close> on a missing \<^verbatim>\<open>qa_date\<close> and \<^verbatim>\<open>ValueError\<close>
  on a malformed one, \<^verbatim>\<open>int\<close> likewise on \<^verbatim>\<open>unit_id\<close>. \<^verbatim>\<open>db.flush()\<close> then inserts
  the row: a \<^verbatim>\<open>unit_id\<close> outside the 64-bit range cannot be bound, a missing
  \<^verbatim>\<open>performer\<close> violates \<^verbatim>\<open>NOT NULL\<close>, and an unknown \<^verbatim>\<open>unit_id\<close>
  violates the foreign key where the engine enforces it. The acting user was read from
  the \<^verbatim>\<open>users\<close> table, so \<^verbatim>\<open>created_by\<close> always refers to a row.
\<close>

definition new_report :: "env \<Rightarrow> request \<Rightarrow> string \<Rightarrow> User \<Rightarrow> store \<Rightarrow> error + QAReport" where
  "new_report e req qa_type user db =
     (case form req ''qa_date'' of
        None \<Rightarrow> Inl TypeError
      | Some ds \<Rightarrow>
     (case strptime e ds of
        None \<Rightarrow> Inl ValueError
      | Some d \<Rightarrow>
     (case form req ''unit_id'' of
        None \<Rightarrow> Inl TypeError
      | Some us \<Rightarrow>
     (case py_int e us of
        None \<Rightarrow> Inl ValueError
      | Some uid \<Rightarrow>
          if \<not> sqlite_int uid then Inl OverflowError
          else
     (case form req ''performer'' of
        None \<Rightarrow> Inl IntegrityError
      | Some p \<Rightarrow>
          if foreign_keys e \<and> uid \<notin> set (map u_id (units db)) then Inl IntegrityError
          else Inr \<lparr>r_id = next_id (map r_id (qa_reports db)), r_date = d,
                    r_qa_type = qa_type, r_unit_id = uid, r_performer = p,
                    r_witness = form_get req ''witness'' [],
                    r_comments = form_get req ''comments'' [],
                    r_signature = form_get req ''signature'' [],
                    r_created_by = us_id user\<rparr>)))))"

text \<open>
  The loop over \<^verbatim>\<open>SASQART_TESTS[qa_type]\<close>: one \<^verbatim>\<open>QATest\<close> per checklist entry, its
  status and notes read from the form fields \<^verbatim>\<open>status_<id>\<close> and \<^verbatim>\<open>notes_<id>\<close>
  with the empty string as default. No other form field is read.
\<close>

fun add_tests :: "request \<Rightarrow> int \<Rightarrow> test_def list \<Rightarrow> QATest list \<Rightarrow> QATest list" where
  "add_tests req rid [] tests = tests"
| "add_tests req rid (test_def # rest) tests =
     add_tests req rid rest
       (tests @ [\<lparr>t_id = next_id (map t_id tests), t_report_id = rid,
                  t_test_id = item_id test_def,
                  t_status = form_get req (''status_'' @ item_id test_def) [],
                  t_notes = form_get req (''notes_'' @ item_id test_def) [],
                  t_measurement = None\<rparr>])"

text \<open>
  An exception before \<^verbatim>\<open>db.commit()\<close> leaves the database as it was (the session is
  closed without a commit). After the commit the handler looks the unit up for the
  audit message and reads \<^verbatim>\<open>unit.name\<close>: on \<^verbatim>\<open>None\<close> that is \<^verbatim>\<open>AttributeError\<close>,
  raised when the report and its tests are already committed.
\<close>

definition save_qa_report :: "env \<Rightarrow> request \<Rightarrow> string \<Rightarrow> store \<Rightarrow> (error + response) \<times> store" where
  "save_qa_report e req qa_type db =
     (case get_current_user req db of
        None \<Rightarrow> (Inr (RedirectResponse ''/login''), db)
      | Some user \<Rightarrow>
     (case new_report e req qa_type user db of
        Inl err \<Rightarrow> (Inl err, db)
      | Inr report \<Rightarrow>
     (case SASQART_TESTS qa_type of
        None \<Rightarrow> (Inl KeyError, db)
      | Some test_defs \<Rightarrow>
          let db1 = db\<lparr>qa_reports := qa_reports db @ [report],
                       qa_tests := add_tests req (r_id report) test_defs (qa_tests db)\<rparr>
          in (case first (filter (\<lambda>u. u_id u = r_unit_id report) (units db1)) of
                None \<Rightarrow> (Inl AttributeError, db1)
              | Some unit \<Rightarrow>
                  (Inr (RedirectResponse ''/history''),
                   log_audit db1 (us_username user) ''SAVE_QA''
                     (upper e qa_type @ '' QA saved for '' @ u_name unit @ '' on ''
                        @ isoformat e (r_date report))
                     (client_host req))))))"

subsection \<open>\<^verbatim>\<open>dashboard\<close>: the due status of each active unit\<close>

definition last_report :: "store \<Rightarrow> int \<Rightarrow> string \<Rightarrow> QAReport option" where
  "last_report db uid qa_type =
     first (order_by_desc r_date
       (filter (\<lambda>r. r_unit_id r = uid \<and> r_qa_type r = qa_type) (qa_reports db)))"

definition unit_status :: "date \<Rightarrow> store \<Rightarrow> Unit \<Rightarrow> qa_status" where
  "unit_status today db unit =
     (let ld = last_report db (u_id unit) ''daily'';
          lm = last_report db (u_id unit) ''monthly''
      in \<lparr>st_unit = unit,
          last_daily = map_option r_date ld,
          last_monthly = map_option r_date lm,
          daily_due = (case ld of None \<Rightarrow> True | Some r \<Rightarrow> r_date r < today),
          monthly_due = (case lm of None \<Rightarrow> True | Some r \<Rightarrow> today - r_date r > 30)\<rparr>)"

text \<open>
  The page also lists the ten most recently created reports, ordered by the
  \<^verbatim>\<open>created_at\<close> timestamp; that part is not modelled.
\<close>

definition dashboard :: "request \<Rightarrow> date \<Rightarrow> store \<Rightarrow> response" where
  "dashboard req today db =
     (case get_current_user req db of
        None \<Rightarrow> RedirectResponse ''/login''
      | Some user \<Rightarrow> DashboardPage (map (unit_status today db) (filter u_active (units db))))"

subsection \<open>\<^verbatim>\<open>history_page\<close>: GET /history\<close>

text \<open>
  The query parameters \<^verbatim>\<open>start_date\<close> and \<^verbatim>\<open>end_date\<close> are ISO strings
  \<^verbatim>\<open>YYYY-MM-DD\<close>, compared with the date column; they are represented by the date
  they denote, and a missing or empty parameter by \<open>None\<close>. \<^verbatim>\<open>if qa_type\<close> and
  \<^verbatim>\<open>if unit_id\<close> are Python truth tests: the empty string and 0 count as absent.
\<close>

definition history_reports ::
  "date option \<Rightarrow> date option \<Rightarrow> string option \<Rightarrow> int option \<Rightarrow> date \<Rightarrow> store \<Rightarrow> QAReport list" where
  "history_reports start_date end_date qa_type unit_id today db =
     (let end_date' = (case end_date of None \<Rightarrow> today | Some d \<Rightarrow> d);
          start_date' = (case start_date of None \<Rightarrow> today - 30 | Some d \<Rightarrow> d);
          q0 = qa_reports db;
          q1 = filter (\<lambda>r. r_date r \<ge> start_date') q0;
          q2 = filter (\<lambda>r. r_date r \<le> end_date') q1;
          q3 = (case qa_type of
                  None \<Rightarrow> q2
                | Some ty \<Rightarrow> if ty \<noteq> [] \<and> ty \<noteq> ''all''
                             then filter (\<lambda>r. r_qa_type r = ty) q2 else q2);
          q4 = (case unit_id of
                  None \<Rightarrow> q3
                | Some uid \<Rightarrow> if uid \<noteq> 0 then filter (\<lambda>r. r_unit_id r = uid) q3 else q3)
      in order_by_desc r_date q4)"

definition history_page ::
  "request \<Rightarrow> date option \<Rightarrow> date option \<Rightarrow> string option \<Rightarrow> int option \<Rightarrow> date \<Rightarrow> store \<Rightarrow> response" where
  "history_page req start_date end_date qa_type unit_id today db =
     (case get_current_user req db of
        None \<Rightarrow> RedirectResponse ''/login''
      | Some user \<Rightarrow> HistoryPage (history_reports start_date end_date qa_type unit_id today db))"

subsection \<open>\<^verbatim>\<open>trends_page\<close>: GET /trends\<close>

text \<open>
  The query for the readings of one unit and energy since \<^verbatim>\<open>today - days\<close>.
\<close>

definition trend_readings :: "int \<Rightarrow> string \<Rightarrow> int \<Rightarrow> date \<Rightarrow> store \<Rightarrow> OutputReading list" where
  "trend_readings unit_id energy days today db =
     (let start_date = today - days
      in order_by o_date
           (filter (\<lambda>r. o_unit_id r = unit_id \<and> o_energy r = energy \<and> o_date r \<ge> start_date)
              (output_readings db)))"

text \<open>
  The handler computes the start date first: \<^verbatim>\<open>timedelta(days=days)\<close> accepts at most
  999999999 days in either direction, and the subtraction must stay within the range of
  \<^verbatim>\<open>datetime.date\<close>, days 1 to 3652059; either failure is \<^verbatim>\<open>OverflowError\<close>, as is
  a \<^verbatim>\<open>unit_id\<close> that cannot be bound to the query.
\<close>

definition date_ok :: "date \<Rightarrow> bool" where
  "date_ok d = (1 \<le> d \<and> d \<le> 3652059)"

definition trends_page ::
  "env \<Rightarrow> request \<Rightarrow> int option \<Rightarrow> string option \<Rightarrow> int \<Rightarrow> date \<Rightarrow> store \<Rightarrow> error + response" where
  "trends_page e req unit_id energy days today db =
     (case get_current_user req db of
        None \<Rightarrow> Inr (RedirectResponse ''/login'')
      | Some user \<Rightarrow>
          (case (unit_id, energy) of
             (Some uid, Some en) \<Rightarrow>
               if uid \<noteq> 0 \<and> en \<noteq> []
               then if \<not> (\<bar>days\<bar> \<le> 999999999 \<and> date_ok (today - days)) then Inl OverflowError
                    else if \<not> sqlite_int uid then Inl OverflowError
                    else Inr (TrendsPage
                           (map (\<lambda>r. (isoformat e (o_date r), o_deviation r))
                              (trend_readings uid en days today db)))
               else Inr (TrendsPage [])
           | _ \<Rightarrow> Inr (TrendsPage [])))"


subsection \<open>\<^verbatim>\<open>save_unit\<close>: POST /units, and the default units\<close>

text \<open>\<^verbatim>\<open>s.split(",")\<close>: the pieces between commas, one piece for a string without comma.\<close>

fun split_comma :: "string \<Rightarrow> string list" where
  "split_comma [] = [[]]"
| "split_comma (c # cs) =
     (if c = CHR '','' then [] # split_comma cs
      else (case split_comma cs of [] \<Rightarrow> [[c]] | w # ws \<Rightarrow> (c # w) # ws))"

definition parse_energies :: "env \<Rightarrow> request \<Rightarrow> string \<Rightarrow> string list" where
  "parse_energies e req key =
     filter (\<lambda>x. x \<noteq> []) (map (strip e) (split_comma (form_get req key [])))"

text \<open>
  A fresh \<^verbatim>\<open>Unit()\<close> gets its key and the column defaults when it is inserted; every
  other column is \<^verbatim>\<open>None\<close> until the handler assigns it.
\<close>

definition blank_unit :: "store \<Rightarrow> Unit" where
  "blank_unit db =
     \<lparr>u_id = next_id (map u_id (units db)), u_name = [], u_manufacturer = None,
      u_model = None, u_serial_number = None, u_location = None, u_install_date = None,
      u_photon_energies = [], u_electron_energies = [], u_fff_energies = [],
      u_active = True\<rparr>"

text \<open>
  The row the handler works on: the existing row with the submitted key, or a fresh
  one when \<^verbatim>\<open>unit_id\<close> is missing, empty or \<^verbatim>\<open>"new"\<close>. A key that matches no row
  gives \<^verbatim>\<open>None\<close>, and the first assignment \<^verbatim>\<open>unit.name = ...\<close> raises.
\<close>

definition select_unit :: "env \<Rightarrow> request \<Rightarrow> store \<Rightarrow> error + Unit" where
  "select_unit e req db =
     (case form req ''unit_id'' of
        None \<Rightarrow> Inr (blank_unit db)
      | Some unit_id \<Rightarrow>
          if unit_id \<noteq> [] \<and> unit_id \<noteq> ''new''
          then (case py_int e unit_id of
                  None \<Rightarrow> Inl ValueError
                | Some k \<Rightarrow>
                    if \<not> sqlite_int k then Inl OverflowError
                    else
                      (case first (filter (\<lambda>u. u_id u = k) (units db)) of
                         None \<Rightarrow> Inl AttributeError
                       | Some unit \<Rightarrow> Inr unit))
          else Inr (blank_unit db))"

text \<open>The assignments; \<^verbatim>\<open>install_date\<close> is assigned only when the field is non-empty.\<close>

definition assign_unit :: "env \<Rightarrow> request \<Rightarrow> Unit \<Rightarrow> string \<Rightarrow> error + Unit" where
  "assign_unit e req unit nm =
     (let unit1 = unit\<lparr>u_name := nm, u_manufacturer := form req ''manufacturer'',
                       u_model := form req ''model'',
                       u_serial_number := form req ''serial_number'',
                       u_location := form req ''location''\<rparr>;
          energies = (\<lambda>u. u\<lparr>u_photon_energies := parse_energies e req ''photon_energies'',
                           u_electron_energies := parse_energies e req ''electron_energies'',
                           u_fff_energies := parse_energies e req ''fff_energies''\<rparr>)
      in (case form req ''install_date'' of
            None \<Rightarrow> Inr (energies unit1)
          | Some ds \<Rightarrow>
              if ds = [] then Inr (energies unit1)
              else (case strptime e ds of
                      None \<Rightarrow> Inl ValueError
                    | Some d \<Rightarrow> Inr (energies (unit1\<lparr>u_install_date := Some d\<rparr>)))))"

text \<open>
  \<^verbatim>\<open>db.commit()\<close> writes the row: an \<^verbatim>\<open>UPDATE\<close> of the row with that key, or an
  \<^verbatim>\<open>INSERT\<close>. The column \<^verbatim>\<open>name\<close> is \<^verbatim>\<open>unique=True, nullable=False\<close>: a missing
  name, or a name that another row holds, is \<^verbatim>\<open>IntegrityError\<close> and nothing is written.
\<close>

definition write_unit :: "Unit \<Rightarrow> Unit list \<Rightarrow> Unit list" where
  "write_unit unit rows =
     (if u_id unit \<in> set (map u_id rows)
      then map (\<lambda>u. if u_id u = u_id unit then unit else u) rows
      else rows @ [unit])"

definition save_unit :: "env \<Rightarrow> request \<Rightarrow> store \<Rightarrow> (error + response) \<times> store" where
  "save_unit e req db =
     (case get_current_user req db of
        None \<Rightarrow> (Inr (RedirectResponse ''/login''), db)
      | Some user \<Rightarrow>
     (case select_unit e req db of
        Inl err \<Rightarrow> (Inl err, db)
      | Inr unit0 \<Rightarrow>
     (case assign_unit e req unit0 (form_get req ''name'' []) of
        Inl err \<Rightarrow> (Inl err, db)
      | Inr unit \<Rightarrow>
     (case form req ''name'' of
        None \<Rightarrow> (Inl IntegrityError, db)
      | Some nm \<Rightarrow>
          if nm \<in> set (map u_name (filter (\<lambda>u. u_id u \<noteq> u_id unit) (units db)))
          then (Inl IntegrityError, db)
          else (Inr (RedirectResponse ''/units''),
                log_audit (db\<lparr>units := write_unit unit (units db)\<rparr>) (us_username user)
                  ''SAVE_UNIT''
                  (''Unit configuration saved: '' @ u_name unit @ '' (S/N: ''
                     @ (case u_serial_number unit of None \<Rightarrow> ''None'' | Some sn \<Rightarrow> sn)
                     @ '')'')
                  (client_host req))))))"

definition default_units :: "Unit list" where
  "default_units =
     [\<lparr>u_id = 1, u_name = ''Linac 1'', u_manufacturer = Some ''Varian'',
       u_model = Some ''Clinac'', u_serial_number = None, u_location = None,
       u_install_date = None, u_photon_energies = [''6MV'', ''15MV''],
       u_electron_energies = [''6MeV'', ''9MeV'', ''12MeV'', ''15MeV''],
       u_fff_energies = [], u_active = True\<rparr>,
      \<lparr>u_id = 2, u_name = ''TrueBeam'', u_manufacturer = Some ''Varian'',
       u_model = Some ''TrueBeam'', u_serial_number = None, u_location = None,
       u_install_date = None, u_photon_energies = [''6MV'', ''10MV'', ''15MV''],
       u_electron_energies = [''6MeV'', ''9MeV'', ''12MeV'', ''15MeV'', ''18MeV''],
       u_fff_energies = [''6MV FFF'', ''10MV FFF''], u_active = True\<rparr>]"

definition create_default_units :: "store \<Rightarrow> store" where
  "create_default_units db =
     (if length (units db) = 0 then db\<lparr>units := default_units\<rparr> else db)"

definition get_unit_api :: "int \<Rightarrow> store \<Rightarrow> error + response" where
  "get_unit_api unit_id db =
     (if \<not> sqlite_int unit_id then Inl OverflowError
      else
        (case first (filter (\<lambda>u. u_id u = unit_id) (units db)) of
           None \<Rightarrow> Inl (HTTPException 404)
         | Some unit \<Rightarrow> Inr (UnitJson unit)))"

subsection \<open>\<^verbatim>\<open>save_output_reading\<close>: POST /api/output-reading\<close>

text \<open>
  Python numbers are integers of any size or floats (IEEE-754 doubles); a boolean is
  the integer 0 or 1. A float is represented by the real number it denotes. The model
  follows every exception of the arithmetic exactly; the rounding of a float result to
  double precision, and results that are infinite or not a number, are not modelled,
  so a computed float stands for the exact value of the operation.
\<close>

datatype py_number = PyInt int | PyFloat real

fun json_number :: "json \<Rightarrow> py_number option" where
  "json_number (JInt i) = Some (PyInt i)"
| "json_number (JFloat x) = Some (PyFloat x)"
| "json_number (JBool b) = Some (PyInt (if b then 1 else 0))"
| "json_number _ = None"

fun number_value :: "py_number \<Rightarrow> real" where
  "number_value (PyInt i) = of_int i"
| "number_value (PyFloat x) = x"

text \<open>The numeric value of a JSON value, if it has one.\<close>

fun py_num :: "json \<Rightarrow> real option" where
  "py_num (JInt i) = Some (of_int i)"
| "py_num (JFloat x) = Some x"
| "py_num (JBool b) = Some (if b then 1 else 0)"
| "py_num _ = None"

text \<open>
  An integer is converted to a float when the other operand is a float. The conversion
  rounds to nearest, and raises \<^verbatim>\<open>OverflowError\<close> when the result would exceed the
  largest double, that is from \<open>2 ^ 1024 - 2 ^ 970\<close> on. The true division of two
  integers raises \<^verbatim>\<open>OverflowError\<close> under the same bound on the quotient.
\<close>

definition double_limit :: real where
  "double_limit = 2 ^ 1024 - 2 ^ 970"

definition to_float :: "py_number \<Rightarrow> error + real" where
  "to_float n =
     (case n of
        PyFloat x \<Rightarrow> Inr x
      | PyInt i \<Rightarrow> if \<bar>of_int i\<bar> < double_limit then Inr (of_int i) else Inl OverflowError)"

text \<open>
  \<^verbatim>\<open>a - b\<close>: exact on two integers; otherwise both operands are converted and the
  result is a float.
\<close>

definition py_sub :: "py_number \<Rightarrow> py_number \<Rightarrow> error + py_number" where
  "py_sub a b =
     (case (a, b) of
        (PyInt i, PyInt j) \<Rightarrow> Inr (PyInt (i - j))
      | _ \<Rightarrow>
          (case to_float a of
             Inl err \<Rightarrow> Inl err
           | Inr x \<Rightarrow>
               (case to_float b of
                  Inl err \<Rightarrow> Inl err
                | Inr y \<Rightarrow> Inr (PyFloat (x - y)))))"

text \<open>
  \<^verbatim>\<open>a / b\<close>, true division, always a float. On two integers the zero divisor is
  tested first; otherwise the operands are converted first and the divisor tested
  then.
\<close>

definition py_truediv :: "py_number \<Rightarrow> py_number \<Rightarrow> error + real" where
  "py_truediv a b =
     (case (a, b) of
        (PyInt i, PyInt j) \<Rightarrow>
          if j = 0 then Inl ZeroDivisionError
          else if \<bar>of_int i / of_int j\<bar> < double_limit then Inr (of_int i / of_int j)
          else Inl OverflowError
      | _ \<Rightarrow>
          (case to_float a of
             Inl err \<Rightarrow> Inl err
           | Inr x \<Rightarrow>
               (case to_float b of
                  Inl err \<Rightarrow> Inl err
                | Inr y \<Rightarrow> if y = 0 then Inl ZeroDivisionError else Inr (x / y))))"

text \<open>
  \<^verbatim>\<open>((reading - reference) / reference) * 100\<close>. The last product is a float times
  the integer 100 and raises nothing.
\<close>

definition deviation :: "py_number \<Rightarrow> py_number \<Rightarrow> error + real" where
  "deviation reading reference =
     (case py_sub reading reference of
        Inl err \<Rightarrow> Inl err
      | Inr d \<Rightarrow>
          (case py_truediv d reference of
             Inl err \<Rightarrow> Inl err
           | Inr q \<Rightarrow> Inr (q * 100)))"

text \<open>
  The arguments of \<^verbatim>\<open>OutputReading(...)\<close>, evaluated in order: each \<^verbatim>\<open>data[key]\<close>
  raises \<^verbatim>\<open>KeyError\<close> on a missing key, \<^verbatim>\<open>strptime\<close> raises \<^verbatim>\<open>TypeError\<close> on a
  value that is no string; the deviation is computed last, and its subtraction raises
  \<^verbatim>\<open>TypeError\<close> when the reading or the reference is no number.
\<close>

definition reading_args ::
  "env \<Rightarrow> (string \<rightharpoonup> json) \<Rightarrow>
     error + (date \<times> json \<times> json \<times> py_number \<times> py_number \<times> real)" where
  "reading_args e data =
     (case data ''date'' of
        None \<Rightarrow> Inl KeyError
      | Some dv \<Rightarrow>
     (case dv of
        JStr ds \<Rightarrow>
          (case strptime e ds of
             None \<Rightarrow> Inl ValueError
           | Some d \<Rightarrow>
          (case data ''unit_id'' of
             None \<Rightarrow> Inl KeyError
           | Some unit_id \<Rightarrow>
          (case data ''energy'' of
             None \<Rightarrow> Inl KeyError
           | Some energy \<Rightarrow>
          (case data ''reading'' of
             None \<Rightarrow> Inl KeyError
           | Some reading \<Rightarrow>
          (case data ''reference'' of
             None \<Rightarrow> Inl KeyError
           | Some reference \<Rightarrow>
          (case json_number reading of
             None \<Rightarrow> Inl TypeError
           | Some a \<Rightarrow>
          (case json_number reference of
             None \<Rightarrow> Inl TypeError
           | Some b \<Rightarrow>
          (case deviation a b of
             Inl err \<Rightarrow> Inl err
           | Inr dev \<Rightarrow> Inr (d, unit_id, energy, a, b, dev)))))))))
      | _ \<Rightarrow> Inl TypeError))"

text \<open>
  \<^verbatim>\<open>db.commit()\<close> inserts the row. The values are bound to the statement in column
  order first: an integer outside the signed 64-bit range raises \<^verbatim>\<open>OverflowError\<close>,
  an array or object is refused by the driver. Then the constraints are checked:
  \<^verbatim>\<open>unit_id\<close> and \<^verbatim>\<open>energy\<close> are \<^verbatim>\<open>NOT NULL\<close>, and \<^verbatim>\<open>unit_id\<close> is a foreign key.
  The reading and the reference are numbers once the deviation has been computed; the
  float columns hold their values. A \<^verbatim>\<open>unit_id\<close> that is a JSON string or float, or an
  \<^verbatim>\<open>energy\<close> that is no JSON string, is outside the model, which answers
  \<open>DBAPIError\<close> there (SQLite's column affinity would store such values); no
  statement below depends on that answer.
\<close>

definition bind_error :: "json \<Rightarrow> error option" where
  "bind_error v =
     (case v of
        JInt i \<Rightarrow> if sqlite_int i then None else Some OverflowError
      | JContainer \<Rightarrow> Some DBAPIError
      | _ \<Rightarrow> None)"

definition bind_number :: "py_number \<Rightarrow> error option" where
  "bind_number n =
     (case n of
        PyInt i \<Rightarrow> if sqlite_int i then None else Some OverflowError
      | PyFloat x \<Rightarrow> None)"

fun first_error :: "error option list \<Rightarrow> error option" where
  "first_error [] = None"
| "first_error (None # rest) = first_error rest"
| "first_error (Some err # rest) = Some err"

definition insert_reading ::
  "env \<Rightarrow> store \<Rightarrow> date \<times> json \<times> json \<times> py_number \<times> py_number \<times> real \<Rightarrow>
     error + OutputReading" where
  "insert_reading e db args =
     (case args of (d, unit_id, energy, reading, reference, dev) \<Rightarrow>
        (case first_error [bind_error unit_id, bind_error energy,
                           bind_number reading, bind_number reference] of
           Some err \<Rightarrow> Inl err
         | None \<Rightarrow>
             if unit_id = JNull \<or> energy = JNull then Inl IntegrityError
             else
               (case json_number unit_id of
                  Some (PyInt uid) \<Rightarrow>
                    (case energy of
                       JStr en \<Rightarrow>
                         if foreign_keys e \<and> uid \<notin> set (map u_id (units db))
                         then Inl IntegrityError
                         else Inr \<lparr>o_id = next_id (map o_id (output_readings db)),
                                   o_date = d, o_unit_id = uid, o_energy = en,
                                   o_reading = number_value reading,
                                   o_reference = number_value reference,
                                   o_deviation = dev\<rparr>
                     | _ \<Rightarrow> Inl DBAPIError)
                | _ \<Rightarrow> Inl DBAPIError)))"

definition save_output_reading :: "env \<Rightarrow> request \<Rightarrow> store \<Rightarrow> (error + response) \<times> store" where
  "save_output_reading e req db =
     (case get_current_user req db of
        None \<Rightarrow> (Inl (HTTPException 401), db)
      | Some user \<Rightarrow>
     (case reading_args e (json_body req) of
        Inl err \<Rightarrow> (Inl err, db)
      | Inr args \<Rightarrow>
     (case insert_reading e db args of
        Inl err \<Rightarrow> (Inl err, db)
      | Inr reading \<Rightarrow>
          (Inr (OutputSaved (o_id reading) (o_deviation reading)),
           db\<lparr>output_readings := output_readings db @ [reading]\<rparr>))))"

subsection \<open>The operations that write to the store\<close>

text \<open>
  The handlers above and the start-up hook \<^verbatim>\<open>create_default_units\<close> are the only
  code that writes to the units, reports, tests and readings tables. Login, logout,
  user administration and the audit page write to the users and audit tables only and
  are not part of the model.
\<close>

datatype operation =
    SaveQAReport request string
  | SaveUnit request
  | SaveOutputReading request
  | CreateDefaultUnits

fun run :: "env \<Rightarrow> operation \<Rightarrow> store \<Rightarrow> store" where
  "run e (SaveQAReport req qa_type) db = snd (save_qa_report e req qa_type db)"
| "run e (SaveUnit req) db = snd (save_unit e req db)"
| "run e (SaveOutputReading req) db = snd (save_output_reading e req db)"
| "run e CreateDefaultUnits db = create_default_units db"


section \<open>Properties\<close>

subsection \<open>Derived notions used in the statements\<close>

text \<open>The dates of the reports of one type for one unit, in table order.\<close>

definition report_dates :: "store \<Rightarrow> int \<Rightarrow> string \<Rightarrow> date list" where
  "report_dates db uid qa_type =
     map r_date (filter (\<lambda>r. r_unit_id r = uid \<and> r_qa_type r = qa_type) (qa_reports db))"

text \<open>The tests a report owns.\<close>

definition tests_of :: "store \<Rightarrow> int \<Rightarrow> QATest list" where
  "tests_of db rid = filter (\<lambda>t. t_report_id t = rid) (qa_tests db)"

text \<open>
  Two invariants of the store: every test row belongs to a report of the table, and
  the \<^verbatim>\<open>units\<close> table has pairwise distinct keys and pairwise distinct names.
\<close>

definition tests_owned :: "store \<Rightarrow> bool" where
  "tests_owned db = list_all (\<lambda>t. t_report_id t \<in> set (map r_id (qa_reports db))) (qa_tests db)"

definition units_ok :: "store \<Rightarrow> bool" where
  "units_ok db = (distinct (map u_id (units db)) \<and> distinct (map u_name (units db)))"

text \<open>
  A JSON value is a float, or is an integer too large to be converted to one.
\<close>

definition is_float :: "json \<Rightarrow> bool" where
  "is_float v = (case v of JFloat x \<Rightarrow> True | _ \<Rightarrow> False)"

definition too_large_for_float :: "json \<Rightarrow> bool" where
  "too_large_for_float v =
     (case v of JInt i \<Rightarrow> \<not> \<bar>of_int i\<bar> < double_limit | _ \<Rightarrow> False)"

text \<open>
  A submitted result for checklist id \<open>k\<close> is the pair of form fields
  \<^verbatim>\<open>status_k\<close> and \<^verbatim>\<open>notes_k\<close>.
\<close>

definition with_result :: "request \<Rightarrow> string \<Rightarrow> string \<Rightarrow> string \<Rightarrow> request" where
  "with_result req k st nt =
     req\<lparr>form := (form req)(''status_'' @ k \<mapsto> st, ''notes_'' @ k \<mapsto> nt)\<rparr>"

subsection \<open>Concrete inputs for the examples\<close>

text \<open>
  The library functions tabulated on the strings the examples use (2024-01-10 is
  day 738895), with the shipped engine configuration.
\<close>

definition env0 :: env where
  "env0 =
     \<lparr>strptime = (\<lambda>s. if s = ''2024-01-10'' then Some 738895 else None),
      py_int = (\<lambda>s. if s = ''1'' then Some 1 else if s = ''999'' then Some 999 else None),
      isoformat = (\<lambda>d. if d = 738895 then ''2024-01-10'' else ''0001-01-01''),
      upper = (\<lambda>s. if s = ''quarterly'' then ''QUARTERLY'' else s),
      strip = (\<lambda>s. s),
      foreign_keys = False\<rparr>"

definition physicist :: User where
  "physicist = \<lparr>us_id = 1, us_username = ''admin'', us_role = ''admin'', us_active = True\<rparr>"

definition db0 :: store where
  "db0 = \<lparr>users = [physicist], units = default_units, qa_reports = [], qa_tests = [],
          output_readings = [], audit_log = []\<rparr>"

definition qa_request :: "string \<Rightarrow> request" where
  "qa_request unit_id =
     \<lparr>session_user_id = Some 1,
      form = [''qa_date'' \<mapsto> ''2024-01-10'', ''unit_id'' \<mapsto> unit_id,
              ''performer'' \<mapsto> ''T. Mokoena''],
      json_body = Map.empty, client_host = ''10.0.0.7''\<rparr>"

definition reading_request :: "json \<Rightarrow> json \<Rightarrow> request" where
  "reading_request reading reference =
     \<lparr>session_user_id = Some 1, form = Map.empty,
      json_body = [''date'' \<mapsto> JStr ''2024-01-10'', ''unit_id'' \<mapsto> JInt 1,
                   ''energy'' \<mapsto> JStr ''6MV'', ''reading'' \<mapsto> reading,
                   ''reference'' \<mapsto> reference],
      client_host = ''10.0.0.7''\<rparr>"

definition unit_request :: "string \<Rightarrow> request" where
  "unit_request nm =
     \<lparr>session_user_id = Some 1,
      form = [''unit_id'' \<mapsto> ''new'', ''name'' \<mapsto> nm, ''manufacturer'' \<mapsto> ''Elekta''],
      json_body = Map.empty, client_host = ''10.0.0.7''\<rparr>"

definition mk_report :: "int \<Rightarrow> date \<Rightarrow> string \<Rightarrow> int \<Rightarrow> QAReport" where
  "mk_report k d qa_type uid =
     \<lparr>r_id = k, r_date = d, r_qa_type = qa_type, r_unit_id = uid,
      r_performer = ''T. Mokoena'', r_witness = [], r_comments = [], r_signature = [],
      r_created_by = 1\<rparr>"

definition db_reports :: "QAReport list \<Rightarrow> store" where
  "db_reports rs = db0\<lparr>qa_reports := rs\<rparr>"

definition page_request :: request where
  "page_request =
     \<lparr>session_user_id = Some 1, form = Map.empty, json_body = Map.empty,
      client_host = ''10.0.0.7''\<rparr>"

text \<open>The two default units, the second one retired (\<^verbatim>\<open>active\<close> cleared).\<close>

definition db_retired :: store where
  "db_retired =
     db0\<lparr>units := [default_units ! 0, (default_units ! 1)\<lparr>u_active := False\<rparr>]\<rparr>"


subsection \<open>The registry\<close>

lemma daily_ids:
  "map item_id daily_tests =
     [''DL1'', ''DL2'', ''DL3'', ''DL4'', ''DL5'', ''DL6'', ''DL7'', ''DL8'', ''DL9'']"
  by (simp add: daily_tests_def mk_test_def)

lemma monthly_ids:
  "map item_id monthly_tests =
     [''ML1'', ''ML2'', ''ML3'', ''ML4'', ''ML5'', ''ML6'', ''ML7'', ''ML8'', ''ML9'', ''ML10'',
      ''ML11'', ''ML12'', ''ML13'', ''ML14'', ''ML15'', ''ML16'']"
  by (simp add: monthly_tests_def mk_test_def)

lemma quarterly_ids: "map item_id quarterly_tests = [''Q1'']"
  by (simp add: quarterly_tests_def mk_test_def)

lemma annual_ids:
  "map item_id annual_tests =
     [''AL1'', ''AL2'', ''AL3'', ''AL4'', ''AL5'', ''AL6'', ''AL7'', ''AL8'', ''AL9'', ''AL10'',
      ''AL11'', ''AL12'', ''AL13'', ''AL14'', ''AL15'', ''AL16'', ''AL17'', ''AL18'']"
  by (simp add: annual_tests_def mk_test_def)

lemma SASQART_TESTS_daily: "SASQART_TESTS ''daily'' = Some daily_tests"
  by (simp add: SASQART_TESTS_def)

lemma SASQART_TESTS_monthly: "SASQART_TESTS ''monthly'' = Some monthly_tests"
  by (simp add: SASQART_TESTS_def)

lemma SASQART_TESTS_quarterly: "SASQART_TESTS ''quarterly'' = Some quarterly_tests"
  by (simp add: SASQART_TESTS_def)

lemma SASQART_TESTS_annual: "SASQART_TESTS ''annual'' = Some annual_tests"
  by (simp add: SASQART_TESTS_def)

lemma distinct_daily_ids: "distinct (map item_id daily_tests)"
  unfolding daily_ids by simp

lemma distinct_monthly_ids: "distinct (map item_id monthly_tests)"
  unfolding monthly_ids by simp

lemma distinct_quarterly_ids: "distinct (map item_id quarterly_tests)"
  unfolding quarterly_ids by simp

lemma distinct_annual_ids: "distinct (map item_id annual_tests)"
  unfolding annual_ids by simp

lemma SASQART_TESTS_distinct:
  "SASQART_TESTS qa_type = Some items \<Longrightarrow> distinct (map item_id items)"
  by (auto simp: SASQART_TESTS_def distinct_daily_ids distinct_monthly_ids
        distinct_quarterly_ids distinct_annual_ids split: if_splits)

text \<open>
  C9. For each of the four session types the registry holds a checklist that is not
  empty and whose ids are pairwise distinct. The registry is a constant of the model:
  no operation takes it as an argument or returns it, so two lookups of the same type
  give the same list.
\<close>

theorem itemsFor_registry:
  "SASQART_TESTS ''daily'' = Some daily_tests \<and> daily_tests \<noteq> [] \<and>
     distinct (map item_id daily_tests) \<and>
   SASQART_TESTS ''monthly'' = Some monthly_tests \<and> monthly_tests \<noteq> [] \<and>
     distinct (map item_id monthly_tests) \<and>
   SASQART_TESTS ''quarterly'' = Some quarterly_tests \<and> quarterly_tests \<noteq> [] \<and>
     distinct (map item_id quarterly_tests) \<and>
   SASQART_TESTS ''annual'' = Some annual_tests \<and> annual_tests \<noteq> [] \<and>
     distinct (map item_id annual_tests)"
  by (simp add: SASQART_TESTS_def daily_ids monthly_ids quarterly_ids annual_ids
        flip: map_is_Nil_conv [of item_id] del: map_is_Nil_conv)

subsection \<open>Ordering and the most recent report\<close>

lemma order_by_desc_sorted: "sorted_wrt (\<lambda>a b. a \<ge> b) (map col (order_by_desc col rows))"
proof -
  have "sorted (map col (sort_key col rows))"
    by (rule sorted_sort_key)
  then have "sorted_wrt (\<lambda>a b. a \<ge> b) (rev (map col (sort_key col rows)))"
    by (simp add: sorted_wrt_rev)
  then show ?thesis
    by (simp add: order_by_desc_def rev_map)
qed

lemma order_by_sorted: "sorted (map col (order_by col rows))"
  by (simp add: order_by_def)

lemma set_order_by_desc: "set (order_by_desc col rows) = set rows"
  by (simp add: order_by_desc_def)

lemma set_order_by: "set (order_by col rows) = set rows"
  by (simp add: order_by_def)

lemma first_None: "first xs = None \<longleftrightarrow> xs = []"
  by (simp add: first_def split: list.splits)

lemma first_order_by_desc_None: "first (order_by_desc col rows) = None \<longleftrightarrow> rows = []"
proof -
  have "order_by_desc col rows = [] \<longleftrightarrow> rows = []"
    using set_order_by_desc [of col rows] by (metis set_empty)
  then show ?thesis by (simp add: first_None)
qed

lemma first_order_by_desc_Max:
  assumes "first (order_by_desc col rows) = Some r"
  shows "r \<in> set rows \<and> col r = Max (set (map col rows))"
proof -
  obtain rest where ys: "order_by_desc col rows = r # rest"
    using assms by (auto simp: first_def split: list.splits)
  have mem: "r \<in> set rows"
    using set_order_by_desc [of col rows] ys by auto
  have "sorted_wrt (\<lambda>a b. a \<ge> b) (map col (r # rest))"
    using order_by_desc_sorted [of col rows] ys by simp
  then have "\<forall>x \<in> set rest. col x \<le> col r" by simp
  then have le: "\<forall>x \<in> set rows. col x \<le> col r"
    using set_order_by_desc [of col rows] ys by auto
  have "Max (set (map col rows)) = col r"
    by (rule Max_eqI) (use le mem in auto)
  with mem show ?thesis by simp
qed

lemma last_report_None: "last_report db uid ty = None \<longleftrightarrow> report_dates db uid ty = []"
  by (simp add: last_report_def report_dates_def first_order_by_desc_None)

lemma last_report_Some:
  "last_report db uid ty = Some r \<Longrightarrow>
     report_dates db uid ty \<noteq> [] \<and> r_date r = Max (set (report_dates db uid ty))"
proof -
  assume a: "last_report db uid ty = Some r"
  let ?rows = "filter (\<lambda>r. r_unit_id r = uid \<and> r_qa_type r = ty) (qa_reports db)"
  from a have f: "first (order_by_desc r_date ?rows) = Some r"
    by (simp add: last_report_def)
  from first_order_by_desc_Max [OF f]
  have mem: "r \<in> set ?rows" and mx: "r_date r = Max (set (map r_date ?rows))"
    by blast+
  from mem have "?rows \<noteq> []" by (metis empty_iff empty_set)
  with mx show ?thesis by (simp add: report_dates_def)
qed

lemma unit_status_due:
  "daily_due (unit_status today db unit) \<longleftrightarrow>
     report_dates db (u_id unit) ''daily'' = [] \<or>
     Max (set (report_dates db (u_id unit) ''daily'')) < today"
  "monthly_due (unit_status today db unit) \<longleftrightarrow>
     report_dates db (u_id unit) ''monthly'' = [] \<or>
     today - Max (set (report_dates db (u_id unit) ''monthly'')) > 30"
  "st_unit (unit_status today db unit) = unit"
  by (auto simp: unit_status_def Let_def last_report_None
           split: option.splits dest: last_report_Some)

lemmas ex_defs = db_reports_def db0_def mk_report_def page_request_def physicist_def
  default_units_def get_current_user_def first_def

text \<open>
  C2. The dashboard lists exactly the active units, and for each of them
  \<open>daily_due\<close> holds iff the unit has no daily report or its latest daily report is
  dated before today, and \<open>monthly_due\<close> holds iff it has no monthly report or today
  is more than 30 days after its latest monthly report.
\<close>

theorem due_status:
  assumes "dashboard req today db = DashboardPage sts"
  shows "map st_unit sts = filter u_active (units db) \<and>
         (\<forall>st \<in> set sts.
            (daily_due st \<longleftrightarrow>
               report_dates db (u_id (st_unit st)) ''daily'' = [] \<or>
               Max (set (report_dates db (u_id (st_unit st)) ''daily'')) < today) \<and>
            (monthly_due st \<longleftrightarrow>
               report_dates db (u_id (st_unit st)) ''monthly'' = [] \<or>
               today - Max (set (report_dates db (u_id (st_unit st)) ''monthly'')) > 30))"
proof -
  from assms have sts: "sts = map (unit_status today db) (filter u_active (units db))"
    by (auto simp: dashboard_def split: option.splits)
  have "map st_unit sts = filter u_active (units db)"
    unfolding sts by (simp add: unit_status_due(3) comp_def)
  moreover have "\<forall>st \<in> set sts.
            (daily_due st \<longleftrightarrow>
               report_dates db (u_id (st_unit st)) ''daily'' = [] \<or>
               Max (set (report_dates db (u_id (st_unit st)) ''daily'')) < today) \<and>
            (monthly_due st \<longleftrightarrow>
               report_dates db (u_id (st_unit st)) ''monthly'' = [] \<or>
               today - Max (set (report_dates db (u_id (st_unit st)) ''monthly'')) > 30)"
    unfolding sts using unit_status_due by auto
  ultimately show ?thesis by blast
qed

text \<open>
  Day 738895 as today: unit 1 has a daily report dated today and a monthly report dated
  exactly 30 days ago, so neither is due; unit 2 has no daily report and a monthly
  report dated 31 days ago, so both are due.
\<close>

theorem due_status_witness:
  "dashboard page_request 738895
     (db_reports [mk_report 1 738890 ''daily'' 1, mk_report 2 738895 ''daily'' 1,
                  mk_report 3 738865 ''monthly'' 1, mk_report 4 738864 ''monthly'' 2])
   = DashboardPage
       [\<lparr>st_unit = default_units ! 0, last_daily = Some 738895, last_monthly = Some 738865,
         daily_due = False, monthly_due = False\<rparr>,
        \<lparr>st_unit = default_units ! 1, last_daily = None, last_monthly = Some 738864,
         daily_due = True, monthly_due = True\<rparr>]
   \<and> Max (set (report_dates
        (db_reports [mk_report 1 738890 ''daily'' 1, mk_report 2 738895 ''daily'' 1,
                  mk_report 3 738865 ''monthly'' 1, mk_report 4 738864 ''monthly'' 2]) 1 ''daily'')) = 738895"
proof -
  let ?db = "db_reports [mk_report 1 738890 ''daily'' 1, mk_report 2 738895 ''daily'' 1,
                  mk_report 3 738865 ''monthly'' 1, mk_report 4 738864 ''monthly'' 2]"
  let ?sts = "[\<lparr>st_unit = default_units ! 0, last_daily = Some 738895, last_monthly = Some 738865,
         daily_due = False, monthly_due = False\<rparr>,
        \<lparr>st_unit = default_units ! 1, last_daily = None, last_monthly = Some 738864,
         daily_due = True, monthly_due = True\<rparr>]"
  have h: "dashboard page_request 738895 ?db = DashboardPage ?sts"
    by (simp add: dashboard_def unit_status_def last_report_def order_by_desc_def Let_def ex_defs)
  from due_status [OF h] have "\<forall>st \<in> set ?sts.
            (daily_due st \<longleftrightarrow>
               report_dates ?db (u_id (st_unit st)) ''daily'' = [] \<or>
               Max (set (report_dates ?db (u_id (st_unit st)) ''daily'')) < 738895)" by blast
  then have "Max (set (report_dates ?db 1 ''daily'')) = 738895"
    by (simp add: report_dates_def ex_defs)
  with h show ?thesis by simp
qed

text \<open>
  C7. The readings of a trend query come in non-decreasing date order, and the reports
  of a history query in non-increasing date order.
\<close>

theorem query_orders:
  "sorted (map o_date (trend_readings unit_id energy days today db)) \<and>
   sorted_wrt (\<lambda>a b. a \<ge> b) (map r_date (history_reports start_date end_date qa_type uid today db))"
  by (simp add: trend_readings_def history_reports_def Let_def order_by_sorted order_by_desc_sorted)

text \<open>
  C8, as the code has it. The type and unit filters are optional and all filters are
  conjunctive, but the date range is never absent: a missing start date stands for
  today minus 30 days and a missing end date for today. A type filter that is empty or
  \<^verbatim>\<open>"all"\<close>, and a unit filter 0, count as missing.
\<close>

theorem history_filters:
  "r \<in> set (history_reports start_date end_date qa_type unit_id today db) \<longleftrightarrow>
     r \<in> set (qa_reports db) \<and>
     (case start_date of None \<Rightarrow> today - 30 | Some d \<Rightarrow> d) \<le> r_date r \<and>
     r_date r \<le> (case end_date of None \<Rightarrow> today | Some d \<Rightarrow> d) \<and>
     (\<forall>ty. qa_type = Some ty \<and> ty \<noteq> [] \<and> ty \<noteq> ''all'' \<longrightarrow> r_qa_type r = ty) \<and>
     (\<forall>uid. unit_id = Some uid \<and> uid \<noteq> 0 \<longrightarrow> r_unit_id r = uid)"
  by (auto simp: history_reports_def Let_def set_order_by_desc split: option.splits)

theorem history_filters_witness:
  "mk_report 2 738890 ''daily'' 1 \<in>
     set (history_reports None None (Some ''daily'') (Some 1) 738895
            (db_reports [mk_report 1 738800 ''daily'' 1, mk_report 2 738890 ''daily'' 1,
                         mk_report 3 738891 ''monthly'' 1]))"
  using history_filters [of "mk_report 2 738890 ''daily'' 1" None None "Some ''daily''" "Some 1"
      738895 "db_reports [mk_report 1 738800 ''daily'' 1, mk_report 2 738890 ''daily'' 1,
                         mk_report 3 738891 ''monthly'' 1]"]
  by (simp add: db_reports_def db0_def mk_report_def)

text \<open>
  With no filter supplied at all, a report dated 95 days before today is in the table
  and is not returned.
\<close>

theorem history_default_range_counterexample:
  "mk_report 1 738800 ''daily'' 1 \<in> set (qa_reports (db_reports [mk_report 1 738800 ''daily'' 1])) \<and>
   history_page page_request None None None None 738895
     (db_reports [mk_report 1 738800 ''daily'' 1]) = HistoryPage []"
  by (simp add: history_page_def history_reports_def order_by_desc_def Let_def ex_defs)


subsection \<open>Saving a QA report\<close>

lemma fold_max_ge: "(a::int) \<le> fold max ids a \<and> (\<forall>x \<in> set ids. x \<le> fold max ids a)"
proof (induction ids arbitrary: a)
  case Nil
  show ?case by simp
next
  case (Cons y ys)
  from Cons.IH [of "max y a"] show ?case by auto
qed

lemma next_id_fresh: "next_id ids \<notin> set ids"
proof
  assume "next_id ids \<in> set ids"
  then have "next_id ids \<le> fold max ids 0" using fold_max_ge [of 0 ids] by blast
  then show False by (simp add: next_id_def)
qed

lemma add_tests_char:
  "\<exists>new. add_tests req rid defs tests = tests @ new \<and>
         map t_test_id new = map item_id defs \<and>
         list_all (\<lambda>t. t_report_id t = rid \<and>
                        t_status t = form_get req (''status_'' @ t_test_id t) [] \<and>
                        t_notes t = form_get req (''notes_'' @ t_test_id t) []) new"
proof (induction defs arbitrary: tests)
  case Nil
  show ?case by simp
next
  case (Cons d ds)
  let ?row = "\<lparr>t_id = next_id (map t_id tests), t_report_id = rid, t_test_id = item_id d,
               t_status = form_get req (''status_'' @ item_id d) [],
               t_notes = form_get req (''notes_'' @ item_id d) [], t_measurement = None\<rparr>"
  from Cons.IH [of "tests @ [?row]"] obtain new where
    new: "add_tests req rid ds (tests @ [?row]) = (tests @ [?row]) @ new"
      "map t_test_id new = map item_id ds"
      "list_all (\<lambda>t. t_report_id t = rid \<and>
                        t_status t = form_get req (''status_'' @ t_test_id t) [] \<and>
                        t_notes t = form_get req (''notes_'' @ t_test_id t) []) new"
    by blast
  show ?case
    by (rule exI [of _ "?row # new"]) (use new in simp)
qed

lemma form_get_with_result:
  "key \<noteq> ''status_'' @ k \<Longrightarrow> key \<noteq> ''notes_'' @ k \<Longrightarrow>
     form_get (with_result req k st nt) key dflt = form_get req key dflt"
  by (simp add: form_get_def with_result_def)

lemma form_with_result:
  "key \<noteq> ''status_'' @ k \<Longrightarrow> key \<noteq> ''notes_'' @ k \<Longrightarrow>
     form (with_result req k st nt) key = form req key"
  by (simp add: with_result_def)

lemma add_tests_with_result:
  "k \<notin> set (map item_id defs) \<Longrightarrow>
     add_tests (with_result req k st nt) rid defs tests = add_tests req rid defs tests"
proof (induction defs arbitrary: tests)
  case Nil
  show ?case by simp
next
  case (Cons d ds)
  then have ne: "item_id d \<noteq> k" and rest: "k \<notin> set (map item_id ds)" by auto
  from ne show ?case
    by (simp add: form_get_with_result Cons.IH [OF rest])
qed

lemma new_report_with_result:
  "new_report e (with_result req k st nt) qa_type user db = new_report e req qa_type user db"
  by (simp add: new_report_def form_with_result form_get_with_result
        cong: option.case_cong if_cong)

lemma get_current_user_with_result:
  "get_current_user (with_result req k st nt) db = get_current_user req db"
  by (simp add: get_current_user_def with_result_def)

lemma client_host_with_result: "client_host (with_result req k st nt) = client_host req"
  by (simp add: with_result_def)



lemma save_qa_report_success:
  assumes "save_qa_report e req qa_type db = (Inr (RedirectResponse ''/history''), db')"
  shows "\<exists>user report items unit.
           get_current_user req db = Some user \<and>
           new_report e req qa_type user db = Inr report \<and>
           SASQART_TESTS qa_type = Some items \<and>
           first (filter (\<lambda>u. u_id u = r_unit_id report) (units db)) = Some unit \<and>
           qa_reports db' = qa_reports db @ [report] \<and>
           qa_tests db' = add_tests req (r_id report) items (qa_tests db) \<and>
           units db' = units db \<and> output_readings db' = output_readings db \<and> users db' = users db"
  using assms
  by (auto simp: save_qa_report_def Let_def log_audit_def split: option.splits sum.splits)

lemma new_report_id:
  "new_report e req qa_type user db = Inr report \<Longrightarrow>
     r_id report = next_id (map r_id (qa_reports db))"
  by (auto simp: new_report_def split: option.splits if_splits)

lemma save_qa_report_with_result:
  assumes "k \<notin> set (map item_id (case SASQART_TESTS qa_type of None \<Rightarrow> [] | Some items \<Rightarrow> items))"
  shows "save_qa_report e (with_result req k st nt) qa_type db = save_qa_report e req qa_type db"
proof (cases "SASQART_TESTS qa_type")
  case None
  then show ?thesis
    by (simp add: save_qa_report_def new_report_with_result get_current_user_with_result
          cong: option.case_cong sum.case_cong)
next
  case (Some items)
  with assms have "k \<notin> set (map item_id items)" by simp
  then have "\<And>rid tests. add_tests (with_result req k st nt) rid items tests
                 = add_tests req rid items tests"
    by (rule add_tests_with_result)
  with Some show ?thesis
    by (simp add: save_qa_report_def new_report_with_result get_current_user_with_result
          client_host_with_result cong: option.case_cong sum.case_cong)
qed

lemma save_qa_report_tests:
  "\<exists>new. qa_tests (snd (save_qa_report e req qa_type db)) = qa_tests db @ new \<and>
         set (map t_test_id new) \<subseteq>
           set (map item_id (case SASQART_TESTS qa_type of None \<Rightarrow> [] | Some items \<Rightarrow> items))"
proof (cases "\<exists>user report items. get_current_user req db = Some user \<and>
                new_report e req qa_type user db = Inr report \<and> SASQART_TESTS qa_type = Some items")
  case True
  then obtain user report items where
    h: "get_current_user req db = Some user" "new_report e req qa_type user db = Inr report"
       "SASQART_TESTS qa_type = Some items"
    by blast
  from add_tests_char [of req "r_id report" items "qa_tests db"] obtain new where
    new: "add_tests req (r_id report) items (qa_tests db) = qa_tests db @ new"
      "map t_test_id new = map item_id items"
    by blast
  have "qa_tests (snd (save_qa_report e req qa_type db)) = qa_tests db @ new"
    using h new(1)
    by (simp add: save_qa_report_def Let_def log_audit_def split: option.splits)
  moreover have "set (map t_test_id new) = set (map item_id items)"
    by (simp only: new(2))
  ultimately show ?thesis using h(3) by auto
next
  case False
  then have "snd (save_qa_report e req qa_type db) = db"
    by (auto simp: save_qa_report_def split: option.splits sum.splits)
  then show ?thesis by simp
qed

text \<open>The invariant \<open>tests_owned\<close> holds of the empty tables and is kept by every operation.\<close>

lemma save_qa_report_rows:
  "snd (save_qa_report e req qa_type db) = db \<or>
   (\<exists>report items.
      qa_reports (snd (save_qa_report e req qa_type db)) = qa_reports db @ [report] \<and>
      qa_tests (snd (save_qa_report e req qa_type db)) =
        add_tests req (r_id report) items (qa_tests db))"
proof (cases "\<exists>user report items. get_current_user req db = Some user \<and>
                new_report e req qa_type user db = Inr report \<and> SASQART_TESTS qa_type = Some items")
  case True
  then obtain user report items where
    h: "get_current_user req db = Some user" "new_report e req qa_type user db = Inr report"
       "SASQART_TESTS qa_type = Some items"
    by blast
  then have "qa_reports (snd (save_qa_report e req qa_type db)) = qa_reports db @ [report] \<and>
      qa_tests (snd (save_qa_report e req qa_type db)) =
        add_tests req (r_id report) items (qa_tests db)"
    by (simp add: save_qa_report_def Let_def log_audit_def split: option.splits)
  then show ?thesis by blast
next
  case False
  then have "snd (save_qa_report e req qa_type db) = db"
    by (auto simp: save_qa_report_def split: option.splits sum.splits)
  then show ?thesis by simp
qed

lemma save_qa_report_tests_owned:
  assumes "tests_owned db"
  shows "tests_owned (snd (save_qa_report e req qa_type db))"
proof -
  from save_qa_report_rows [of e req qa_type db] show ?thesis
  proof
    assume "snd (save_qa_report e req qa_type db) = db"
    with assms show ?thesis by simp
  next
    assume "\<exists>report items.
      qa_reports (snd (save_qa_report e req qa_type db)) = qa_reports db @ [report] \<and>
      qa_tests (snd (save_qa_report e req qa_type db)) =
        add_tests req (r_id report) items (qa_tests db)"
    then obtain report items where
      r: "qa_reports (snd (save_qa_report e req qa_type db)) = qa_reports db @ [report]" and
      t: "qa_tests (snd (save_qa_report e req qa_type db)) =
            add_tests req (r_id report) items (qa_tests db)"
      by blast
    from add_tests_char [of req "r_id report" items "qa_tests db"] obtain new where
      new: "add_tests req (r_id report) items (qa_tests db) = qa_tests db @ new"
        "list_all (\<lambda>t. t_report_id t = r_id report \<and>
                        t_status t = form_get req (''status_'' @ t_test_id t) [] \<and>
                        t_notes t = form_get req (''notes_'' @ t_test_id t) []) new"
      by blast
    from new(2) have "\<forall>t \<in> set new. t_report_id t = r_id report"
      by (simp add: list_all_iff)
    with assms show ?thesis
      by (auto simp: tests_owned_def list_all_iff r t new(1))
  qed
qed

lemma run_tests_owned: "tests_owned db \<Longrightarrow> tests_owned (run e op db)"
proof (cases op)
  case (SaveQAReport req qa_type)
  assume "tests_owned db"
  with SaveQAReport show ?thesis by (simp add: save_qa_report_tests_owned)
next
  case (SaveUnit req)
  assume "tests_owned db"
  moreover have "qa_reports (snd (save_unit e req db)) = qa_reports db \<and>
                 qa_tests (snd (save_unit e req db)) = qa_tests db"
    by (simp add: save_unit_def log_audit_def split: option.splits sum.splits)
  ultimately show ?thesis using SaveUnit by (simp add: tests_owned_def)
next
  case (SaveOutputReading req)
  assume "tests_owned db"
  moreover have "qa_reports (snd (save_output_reading e req db)) = qa_reports db \<and>
                 qa_tests (snd (save_output_reading e req db)) = qa_tests db"
    by (simp add: save_output_reading_def split: option.splits sum.splits)
  ultimately show ?thesis using SaveOutputReading by (simp add: tests_owned_def)
next
  case CreateDefaultUnits
  assume "tests_owned db"
  with CreateDefaultUnits show ?thesis
    by (simp add: create_default_units_def tests_owned_def)
qed

lemmas qa_ex_defs = save_qa_report_def new_report_def env0_def qa_request_def with_result_def
  db0_def physicist_def default_units_def get_current_user_def first_def form_get_def
  SASQART_TESTS_def daily_tests_def quarterly_tests_def mk_test_def next_id_def log_audit_def
  tests_of_def tests_owned_def sqlite_int_def Let_def

text \<open>
  C5. After a successful \<^verbatim>\<open>save_qa_report\<close> the new report owns one test row per
  entry of the checklist of its type, in checklist order and without a repeated
  \<^verbatim>\<open>test_id\<close>; the status of each row is the submitted one, and the empty string
  (unset) where the form has no status for that entry. The store is assumed to hold
  no test row without a report.
\<close>

theorem session_backfill:
  assumes ok: "save_qa_report e req qa_type db = (Inr (RedirectResponse ''/history''), db')"
      and owned: "tests_owned db"
  shows "\<exists>items report.
           SASQART_TESTS qa_type = Some items \<and>
           qa_reports db' = qa_reports db @ [report] \<and>
           r_id report \<notin> set (map r_id (qa_reports db)) \<and>
           map t_test_id (tests_of db' (r_id report)) = map item_id items \<and>
           length (tests_of db' (r_id report)) = length items \<and>
           distinct (map t_test_id (tests_of db' (r_id report))) \<and>
           list_all (\<lambda>t. t_status t =
                         (case form req (''status_'' @ t_test_id t) of None \<Rightarrow> [] | Some v \<Rightarrow> v))
             (tests_of db' (r_id report))"
proof -
  from save_qa_report_success [OF ok] obtain user report items unit where
    nr: "new_report e req qa_type user db = Inr report" and
    items: "SASQART_TESTS qa_type = Some items" and
    reps: "qa_reports db' = qa_reports db @ [report]" and
    tests: "qa_tests db' = add_tests req (r_id report) items (qa_tests db)"
    by blast
  have fresh: "r_id report \<notin> set (map r_id (qa_reports db))"
    using new_report_id [OF nr] next_id_fresh [of "map r_id (qa_reports db)"] by simp
  from add_tests_char [of req "r_id report" items "qa_tests db"] obtain new where
    new: "add_tests req (r_id report) items (qa_tests db) = qa_tests db @ new"
      "map t_test_id new = map item_id items"
      "list_all (\<lambda>t. t_report_id t = r_id report \<and>
                        t_status t = form_get req (''status_'' @ t_test_id t) [] \<and>
                        t_notes t = form_get req (''notes_'' @ t_test_id t) []) new"
    by blast
  have old: "filter (\<lambda>t. t_report_id t = r_id report) (qa_tests db) = []"
  proof -
    have "\<forall>t \<in> set (qa_tests db). t_report_id t \<noteq> r_id report"
      using owned fresh unfolding tests_owned_def list_all_iff by metis
    then show ?thesis by (simp add: filter_empty_conv)
  qed
  have all_new: "filter (\<lambda>t. t_report_id t = r_id report) new = new"
    using new(3) by (auto simp: list_all_iff filter_id_conv)
  have own: "tests_of db' (r_id report) = new"
    by (simp add: tests_of_def tests new(1) old all_new)
  have len: "length new = length items"
    using new(2) by (metis length_map)
  have dist: "distinct (map t_test_id new)"
    using SASQART_TESTS_distinct [OF items] new(2) by simp
  have st: "list_all (\<lambda>t. t_status t =
                         (case form req (''status_'' @ t_test_id t) of None \<Rightarrow> [] | Some v \<Rightarrow> v)) new"
    using new(3) by (simp add: list_all_iff form_get_def)
  show ?thesis
    by (rule exI [of _ items], rule exI [of _ report])
      (use items reps fresh new(2) len dist st in \<open>simp add: own\<close>)
qed

text \<open>
  A daily session that submits a result for \<^verbatim>\<open>DL2\<close> only: nine rows, eight of them
  unset.
\<close>

theorem session_backfill_witness:
  "fst (save_qa_report env0 (with_result (qa_request ''1'') ''DL2'' ''pass'' ''ok'') ''daily'' db0)
     = Inr (RedirectResponse ''/history'') \<and>
   tests_owned db0 \<and>
   map r_id (qa_reports (snd (save_qa_report env0
     (with_result (qa_request ''1'') ''DL2'' ''pass'' ''ok'') ''daily'' db0))) = [1] \<and>
   map (\<lambda>t. (t_test_id t, t_status t))
     (tests_of (snd (save_qa_report env0
        (with_result (qa_request ''1'') ''DL2'' ''pass'' ''ok'') ''daily'' db0)) 1)
     = [(''DL1'', []), (''DL2'', ''pass''), (''DL3'', []), (''DL4'', []), (''DL5'', []),
        (''DL6'', []), (''DL7'', []), (''DL8'', []), (''DL9'', [])]"
proof -
  let ?req = "with_result (qa_request ''1'') ''DL2'' ''pass'' ''ok''"
  have ok: "save_qa_report env0 ?req ''daily'' db0
              = (Inr (RedirectResponse ''/history''), snd (save_qa_report env0 ?req ''daily'' db0))"
    by (simp add: qa_ex_defs)
  have owned: "tests_owned db0"
    by (simp add: tests_owned_def db0_def)
  have backfill: "\<exists>items. SASQART_TESTS ''daily'' = Some items"
    using session_backfill [OF ok owned] by blast
  have "map (\<lambda>t. (t_test_id t, t_status t)) (tests_of (snd (save_qa_report env0 ?req ''daily'' db0)) 1)
     = [(''DL1'', []), (''DL2'', ''pass''), (''DL3'', []), (''DL4'', []), (''DL5'', []),
        (''DL6'', []), (''DL7'', []), (''DL8'', []), (''DL9'', [])]"
    by (simp add: qa_ex_defs)
  moreover have "map r_id (qa_reports (snd (save_qa_report env0 ?req ''daily'' db0))) = [1]"
    by (simp add: qa_ex_defs)
  moreover have "fst (save_qa_report env0 ?req ''daily'' db0) = Inr (RedirectResponse ''/history'')"
    by (simp add: qa_ex_defs)
  ultimately show ?thesis
    using owned backfill by blast
qed

text \<open>
  C1, as the code has it. A submitted result whose id is not in the checklist of the
  session type is ignored: the call has the same outcome and leaves the same store as
  the call without it, and none of the rows the call adds carries that id.
\<close>

theorem unknown_item_ignored:
  assumes "k \<notin> set (map item_id (case SASQART_TESTS qa_type of None \<Rightarrow> [] | Some items \<Rightarrow> items))"
  shows "save_qa_report e (with_result req k st nt) qa_type db = save_qa_report e req qa_type db \<and>
         list_all (\<lambda>t. t_test_id t \<noteq> k)
           (drop (length (qa_tests db))
              (qa_tests (snd (save_qa_report e (with_result req k st nt) qa_type db))))"
proof -
  have eq: "save_qa_report e (with_result req k st nt) qa_type db = save_qa_report e req qa_type db"
    using assms by (rule save_qa_report_with_result)
  from save_qa_report_tests [of e req qa_type db] obtain new where
    new: "qa_tests (snd (save_qa_report e req qa_type db)) = qa_tests db @ new"
      "set (map t_test_id new) \<subseteq>
         set (map item_id (case SASQART_TESTS qa_type of None \<Rightarrow> [] | Some items \<Rightarrow> items))"
    by blast
  from new(2) assms have "list_all (\<lambda>t. t_test_id t \<noteq> k) new"
    by (auto simp: list_all_iff)
  then show ?thesis by (simp add: eq new(1))
qed

theorem unknown_item_ignored_witness:
  "''ZZ9'' \<notin> set (map item_id quarterly_tests) \<and>
   save_qa_report env0 (with_result (qa_request ''1'') ''ZZ9'' ''pass'' ''x'') ''quarterly'' db0
     = save_qa_report env0 (qa_request ''1'') ''quarterly'' db0"
proof -
  have h: "''ZZ9'' \<notin> set (map item_id
             (case SASQART_TESTS ''quarterly'' of None \<Rightarrow> [] | Some items \<Rightarrow> items))"
    by (simp add: SASQART_TESTS_def quarterly_ids)
  from unknown_item_ignored [OF h, of env0 "qa_request ''1''" "''pass''" "''x''" db0] show ?thesis
    by (simp add: quarterly_ids)
qed

text \<open>
  A quarterly session submitted with a result for the unknown id \<^verbatim>\<open>ZZ9\<close> is
  accepted: the report and the checklist's one test row are persisted.
\<close>

theorem unknown_item_accepted_counterexample:
  "''ZZ9'' \<notin> set (map item_id quarterly_tests) \<and>
   fst (save_qa_report env0 (with_result (qa_request ''1'') ''ZZ9'' ''pass'' ''x'') ''quarterly'' db0)
     = Inr (RedirectResponse ''/history'') \<and>
   map r_id (qa_reports (snd (save_qa_report env0
      (with_result (qa_request ''1'') ''ZZ9'' ''pass'' ''x'') ''quarterly'' db0))) = [1] \<and>
   map t_test_id (qa_tests (snd (save_qa_report env0
      (with_result (qa_request ''1'') ''ZZ9'' ''pass'' ''x'') ''quarterly'' db0))) = [''Q1'']"
  by (simp add: qa_ex_defs)

text \<open>
  C6 at a concrete input, on the shipped engine configuration: a session for unit 999,
  which is no row of the \<^verbatim>\<open>units\<close> table, is committed with its test row, and only
  then does the handler fail, at \<^verbatim>\<open>unit.name\<close>. The lookup of \<^verbatim>\<open>get_unit_api\<close>
  answers the same missing unit with 404.
\<close>

theorem unknown_unit_persisted:
  "999 \<notin> set (map u_id (units db0)) \<and>
   save_qa_report env0 (qa_request ''999'') ''quarterly'' db0 =
     (Inl AttributeError,
      db0\<lparr>qa_reports := [mk_report 1 738895 ''quarterly'' 999],
          qa_tests := [\<lparr>t_id = 1, t_report_id = 1, t_test_id = ''Q1'', t_status = [],
                        t_notes = [], t_measurement = None\<rparr>]\<rparr>) \<and>
   get_unit_api 999 db0 = Inl (HTTPException 404)"
  by (simp add: qa_ex_defs mk_report_def get_unit_api_def)


subsection \<open>Output readings\<close>

lemma run_output_readings:
  "\<exists>new. output_readings (run e op db) = output_readings db @ new"
proof (cases op)
  case (SaveQAReport req qa_type)
  then show ?thesis
    by (auto simp: save_qa_report_def Let_def log_audit_def split: option.splits sum.splits)
next
  case (SaveUnit req)
  then show ?thesis
    by (auto simp: save_unit_def log_audit_def split: option.splits sum.splits)
next
  case (SaveOutputReading req)
  then show ?thesis
    by (auto simp: save_output_reading_def split: option.splits sum.splits)
next
  case CreateDefaultUnits
  then show ?thesis by (simp add: create_default_units_def)
qed

lemma double_limit_pos: "0 < double_limit"
proof -
  have "(2::real) ^ 970 < 2 ^ 1024" by (rule power_strict_increasing) simp_all
  then show ?thesis by (simp add: double_limit_def)
qed

lemma double_limit_one: "1 < double_limit"
  by (simp add: double_limit_def)

lemma py_num_number:
  "py_num v = Some a \<Longrightarrow> \<exists>n. json_number v = Some n \<and> number_value n = a"
  by (cases v) auto

text \<open>
  With a reference of value zero the deviation is never computed: the subtraction
  overflows when the reading is an integer too large for a float and the reference is
  a float, and the division fails on the zero divisor otherwise.
\<close>

lemma deviation_zero_reference:
  assumes "number_value b = 0"
  shows "deviation a b =
           Inl (if (\<exists>i. a = PyInt i \<and> \<not> \<bar>of_int i\<bar> < double_limit) \<and> (\<exists>x. b = PyFloat x)
                then OverflowError else ZeroDivisionError)"
proof (cases a)
  case ai: (PyInt i)
  show ?thesis
  proof (cases b)
    case (PyInt j)
    with assms ai show ?thesis
      by (simp add: deviation_def py_sub_def py_truediv_def)
  next
    case (PyFloat y)
    with assms ai show ?thesis
      by (simp add: deviation_def py_sub_def py_truediv_def to_float_def)
  qed
next
  case af: (PyFloat x)
  show ?thesis
  proof (cases b)
    case (PyInt j)
    with assms have "j = 0" by simp
    with af PyInt double_limit_pos show ?thesis
      by (simp add: deviation_def py_sub_def py_truediv_def to_float_def)
  next
    case (PyFloat y)
    with assms af show ?thesis
      by (simp add: deviation_def py_sub_def py_truediv_def to_float_def)
  qed
qed

lemma too_large_for_float_number:
  "json_number rd = Some a \<Longrightarrow>
     too_large_for_float rd \<longleftrightarrow> (\<exists>i. a = PyInt i \<and> \<not> \<bar>of_int i\<bar> < double_limit)"
  using double_limit_one
  by (cases rd) (auto simp: too_large_for_float_def)

lemma is_float_number: "json_number rf = Some b \<Longrightarrow> is_float rf \<longleftrightarrow> (\<exists>x. b = PyFloat x)"
  by (cases rf) (auto simp: is_float_def)

text \<open>
  C4. A reading whose reference is zero is never stored: the call fails and the store
  is unchanged. When the rest of the request is in order the failure is the
  \<^verbatim>\<open>ZeroDivisionError\<close> of the division by the reference, except that an integer
  reading too large for a float, against a float reference, already fails in the
  subtraction with \<^verbatim>\<open>OverflowError\<close>.
\<close>

theorem record_zero_reference:
  assumes "json_body req ''reference'' = Some rf" and "py_num rf = Some 0"
  shows "(\<exists>err. save_output_reading e req db = (Inl err, db)) \<and>
         (get_current_user req db \<noteq> None \<and>
          (\<exists>ds d. json_body req ''date'' = Some (JStr ds) \<and> strptime e ds = Some d) \<and>
          json_body req ''unit_id'' \<noteq> None \<and> json_body req ''energy'' \<noteq> None \<and>
          (\<exists>rd a. json_body req ''reading'' = Some rd \<and> py_num rd = Some a)
          \<longrightarrow> save_output_reading e req db =
                (Inl (if is_float rf \<and>
                         (case json_body req ''reading'' of
                            None \<Rightarrow> False | Some rd \<Rightarrow> too_large_for_float rd)
                      then OverflowError else ZeroDivisionError), db))"
proof -
  from py_num_number [OF assms(2)] obtain b where
    b: "json_number rf = Some b" "number_value b = 0" by blast
  have dev: "\<exists>err. deviation a b = Inl err" for a
    using deviation_zero_reference [OF b(2), of a] by blast
  have "\<exists>err. reading_args e (json_body req) = Inl err"
  proof (cases "\<exists>ds d unit_id energy rd a.
      json_body req ''date'' = Some (JStr ds) \<and> strptime e ds = Some d \<and>
      json_body req ''unit_id'' = Some unit_id \<and> json_body req ''energy'' = Some energy \<and>
      json_body req ''reading'' = Some rd \<and> json_number rd = Some a")
    case True
    then obtain ds d unit_id energy rd a where
      "json_body req ''date'' = Some (JStr ds)" "strptime e ds = Some d"
      "json_body req ''unit_id'' = Some unit_id" "json_body req ''energy'' = Some energy"
      "json_body req ''reading'' = Some rd" "json_number rd = Some a"
      by blast
    moreover from dev [of a] obtain err where "deviation a b = Inl err" by blast
    ultimately have "reading_args e (json_body req) = Inl err"
      using assms(1) b(1) by (simp add: reading_args_def)
    then show ?thesis by blast
  next
    case False
    then show ?thesis
      by (auto simp: reading_args_def split: option.splits json.splits sum.splits)
  qed
  then have 1: "\<exists>err. save_output_reading e req db = (Inl err, db)"
    by (auto simp: save_output_reading_def split: option.splits)
  have 2: "save_output_reading e req db =
             (Inl (if is_float rf \<and>
                      (case json_body req ''reading'' of
                         None \<Rightarrow> False | Some rd \<Rightarrow> too_large_for_float rd)
                   then OverflowError else ZeroDivisionError), db)"
    if "get_current_user req db \<noteq> None"
       "\<exists>ds d. json_body req ''date'' = Some (JStr ds) \<and> strptime e ds = Some d"
       "json_body req ''unit_id'' \<noteq> None" "json_body req ''energy'' \<noteq> None"
       "\<exists>rd a. json_body req ''reading'' = Some rd \<and> py_num rd = Some a"
  proof -
    from that(5) obtain rd x where rd: "json_body req ''reading'' = Some rd" "py_num rd = Some x"
      by blast
    from py_num_number [OF rd(2)] obtain a where a: "json_number rd = Some a" by blast
    from that(2) obtain ds d where
      d: "json_body req ''date'' = Some (JStr ds)" "strptime e ds = Some d" by blast
    from that(3) obtain unit_id where u: "json_body req ''unit_id'' = Some unit_id" by blast
    from that(4) obtain energy where en: "json_body req ''energy'' = Some energy" by blast
    from that(1) obtain user where user: "get_current_user req db = Some user" by blast
    let ?err = "if (\<exists>i. a = PyInt i \<and> \<not> \<bar>of_int i\<bar> < double_limit) \<and> (\<exists>x. b = PyFloat x)
                then OverflowError else ZeroDivisionError"
    have "reading_args e (json_body req) = Inl ?err"
      using d u en rd(1) a assms(1) b(1) deviation_zero_reference [OF b(2), of a]
      by (simp add: reading_args_def)
    then have "save_output_reading e req db = (Inl ?err, db)"
      using user by (simp add: save_output_reading_def)
    then show ?thesis
      using rd(1) too_large_for_float_number [OF a] is_float_number [OF b(1)] by simp
  qed
  from 1 2 show ?thesis by blast
qed

theorem record_zero_reference_witness:
  "save_output_reading env0 (reading_request (JInt 98) (JFloat 0)) db0 = (Inl ZeroDivisionError, db0)"
proof -
  have h1: "json_body (reading_request (JInt 98) (JFloat 0)) ''reference'' = Some (JFloat 0)"
    by (simp add: reading_request_def)
  have h2: "py_num (JFloat 0) = Some 0" by simp
  from record_zero_reference [OF h1 h2, of env0 db0] show ?thesis
    by (simp add: reading_request_def env0_def db0_def physicist_def get_current_user_def
          first_def is_float_def too_large_for_float_def double_limit_def)
qed

text \<open>
  The same request with a reading of \<open>10 ^ 400\<close> fails in the subtraction; against
  the integer reference 0 the subtraction is exact and the division fails.
\<close>

lemma record_zero_reference_large:
  "save_output_reading env0 (reading_request (JInt (10 ^ 400)) (JFloat 0)) db0
     = (Inl OverflowError, db0) \<and>
   save_output_reading env0 (reading_request (JInt (10 ^ 400)) (JInt 0)) db0
     = (Inl ZeroDivisionError, db0)"
  by (simp add: save_output_reading_def reading_args_def deviation_def py_sub_def
        py_truediv_def to_float_def double_limit_def reading_request_def env0_def db0_def
        physicist_def get_current_user_def first_def)


subsection \<open>Unit names\<close>

lemma first_filter_mem: "first (filter P xs) = Some x \<Longrightarrow> x \<in> set xs"
proof -
  assume "first (filter P xs) = Some x"
  then have "x \<in> set (filter P xs)"
    by (cases "filter P xs") (simp_all add: first_def)
  then show ?thesis by simp
qed

lemma select_unit_cases:
  assumes "select_unit e req db = Inr unit0"
  shows "unit0 = blank_unit db \<or> unit0 \<in> set (units db)"
proof (cases "form req ''unit_id''")
  case None
  with assms show ?thesis by (simp add: select_unit_def)
next
  case (Some unit_id)
  let ?lookup = "case py_int e unit_id of
          None \<Rightarrow> Inl ValueError
        | Some k \<Rightarrow>
            if \<not> sqlite_int k then Inl OverflowError
            else
              (case first (filter (\<lambda>u. u_id u = k) (units db)) of
                 None \<Rightarrow> Inl AttributeError
               | Some unit \<Rightarrow> Inr unit)"
  from assms Some
  have eq: "(if unit_id \<noteq> [] \<and> unit_id \<noteq> ''new'' then ?lookup else Inr (blank_unit db)) = Inr unit0"
    by (simp only: select_unit_def option.case)
  show ?thesis
  proof (cases "unit_id \<noteq> [] \<and> unit_id \<noteq> ''new''")
    case False
    from eq have "Inr (blank_unit db) = (Inr unit0 :: error + Unit)"
      unfolding if_not_P [OF False] .
    then show ?thesis by simp
  next
    case True
    from eq have sel: "?lookup = Inr unit0"
      unfolding if_P [OF True] .
    then obtain k where k: "py_int e unit_id = Some k"
      by (cases "py_int e unit_id") simp_all
    with sel have "first (filter (\<lambda>u. u_id u = k) (units db)) = Some unit0"
      by (cases "first (filter (\<lambda>u. u_id u = k) (units db))"; cases "sqlite_int k") simp_all
    then show ?thesis by (simp add: first_filter_mem)
  qed
qed

lemma assign_unit_fields:
  "assign_unit e req unit0 nm = Inr unit \<Longrightarrow> u_id unit = u_id unit0 \<and> u_name unit = nm"
  by (auto simp: assign_unit_def Let_def split: option.splits if_splits)

lemma blank_unit_fresh: "u_id (blank_unit db) \<notin> set (map u_id (units db))"
  using next_id_fresh [of "map u_id (units db)"] by (simp add: blank_unit_def)

lemma replace_row_ids:
  "map u_id (map (\<lambda>u. if u_id u = u_id unit then unit else u) rows) = map u_id rows"
  by (induction rows) auto

lemma replace_row_names:
  assumes "distinct (map u_id rows)" and "distinct (map u_name rows)"
      and "u_name unit \<notin> set (map u_name (filter (\<lambda>u. u_id u \<noteq> u_id unit) rows))"
  shows "distinct (map u_name (map (\<lambda>u. if u_id u = u_id unit then unit else u) rows))"
  using assms
proof (induction rows)
  case Nil
  show ?case by simp
next
  case (Cons r rows)
  show ?case
  proof (cases "u_id r = u_id unit")
    case True
    with Cons.prems(1) have "u_id unit \<notin> u_id ` set rows" by simp
    then have no: "\<forall>u \<in> set rows. u_id u \<noteq> u_id unit" by (metis imageI)
    then have same: "map (\<lambda>u. if u_id u = u_id unit then unit else u) rows = rows"
      by (simp add: map_idI)
    from no have "filter (\<lambda>u. u_id u \<noteq> u_id unit) rows = rows" by simp
    with Cons.prems(3) True have "u_name unit \<notin> set (map u_name rows)" by simp
    with Cons.prems(2) True same show ?thesis by simp
  next
    case False
    from Cons.prems False have ih: "distinct (map u_name (map (\<lambda>u. if u_id u = u_id unit then unit else u) rows))"
      by (intro Cons.IH) auto
    have "u_name r \<notin> set (map u_name (map (\<lambda>u. if u_id u = u_id unit then unit else u) rows))"
    proof
      assume "u_name r \<in> set (map u_name (map (\<lambda>u. if u_id u = u_id unit then unit else u) rows))"
      then obtain u where u: "u \<in> set rows"
        "u_name r = u_name (if u_id u = u_id unit then unit else u)" by auto
      show False
      proof (cases "u_id u = u_id unit")
        case True
        with u have "u_name r = u_name unit" by simp
        with Cons.prems(3) False show False by simp
      next
        case False
        with u have "u_name r = u_name u" by simp
        with u(1) Cons.prems(2) show False by auto
      qed
    qed
    with ih False show ?thesis by simp
  qed
qed

lemma write_unit_ok:
  assumes "distinct (map u_id rows)" and "distinct (map u_name rows)"
      and "u_name unit \<notin> set (map u_name (filter (\<lambda>u. u_id u \<noteq> u_id unit) rows))"
  shows "distinct (map u_id (write_unit unit rows)) \<and> distinct (map u_name (write_unit unit rows))"
proof (cases "u_id unit \<in> set (map u_id rows)")
  case True
  then show ?thesis
    using assms replace_row_names [OF assms]
    by (simp add: write_unit_def replace_row_ids del: map_map)
next
  case False
  then have "u_id unit \<notin> u_id ` set rows" by simp
  then have "\<forall>u \<in> set rows. u_id u \<noteq> u_id unit" by (metis imageI)
  then have "filter (\<lambda>u. u_id u \<noteq> u_id unit) rows = rows" by simp
  with assms False show ?thesis by (simp add: write_unit_def)
qed

lemma save_unit_units:
  "units (snd (save_unit e req db)) = units db \<or>
   (\<exists>unit. units (snd (save_unit e req db)) = write_unit unit (units db) \<and>
      u_name unit \<notin> set (map u_name (filter (\<lambda>u. u_id u \<noteq> u_id unit) (units db))))"
proof (cases "get_current_user req db")
  case None
  then show ?thesis by (simp add: save_unit_def)
next
  case user: (Some user)
  show ?thesis
  proof (cases "select_unit e req db")
    case (Inl err)
    with user show ?thesis by (simp add: save_unit_def)
  next
    case sel: (Inr unit0)
    show ?thesis
    proof (cases "assign_unit e req unit0 (form_get req ''name'' [])")
      case (Inl err)
      with user sel show ?thesis by (simp add: save_unit_def)
    next
      case asg: (Inr unit)
      show ?thesis
      proof (cases "form req ''name''")
        case None
        with user sel asg show ?thesis by (simp add: save_unit_def)
      next
        case nm: (Some nm)
        then have "form_get req ''name'' [] = nm" by (simp add: form_get_def)
        with assign_unit_fields [OF asg] have name: "u_name unit = nm" by simp
        show ?thesis
        proof (cases "nm \<in> set (map u_name (filter (\<lambda>u. u_id u \<noteq> u_id unit) (units db)))")
          case True
          with user sel asg nm show ?thesis by (simp add: save_unit_def)
        next
          case False
          with user sel asg nm
          have "units (snd (save_unit e req db)) = write_unit unit (units db)"
            by (simp add: save_unit_def log_audit_def)
          with False name show ?thesis by blast
        qed
      qed
    qed
  qed
qed

lemma save_unit_units_ok:
  assumes "units_ok db"
  shows "units_ok (snd (save_unit e req db))"
proof -
  from assms have d: "distinct (map u_id (units db))" "distinct (map u_name (units db))"
    by (simp_all add: units_ok_def)
  from save_unit_units [of e req db] show ?thesis
  proof
    assume "units (snd (save_unit e req db)) = units db"
    with d show ?thesis by (simp add: units_ok_def)
  next
    assume "\<exists>unit. units (snd (save_unit e req db)) = write_unit unit (units db) \<and>
      u_name unit \<notin> set (map u_name (filter (\<lambda>u. u_id u \<noteq> u_id unit) (units db)))"
    then obtain unit where
      u: "units (snd (save_unit e req db)) = write_unit unit (units db)"
         "u_name unit \<notin> set (map u_name (filter (\<lambda>u. u_id u \<noteq> u_id unit) (units db)))"
      by blast
    from write_unit_ok [OF d u(2)] show ?thesis
      unfolding units_ok_def u(1) .
  qed
qed

lemma save_qa_report_units: "units (snd (save_qa_report e req qa_type db)) = units db"
  by (auto simp: save_qa_report_def Let_def log_audit_def split: option.splits sum.splits)

lemma save_output_reading_units: "units (snd (save_output_reading e req db)) = units db"
  by (auto simp: save_output_reading_def split: option.splits sum.splits)

lemma create_default_units_ok: "units_ok db \<Longrightarrow> units_ok (create_default_units db)"
  by (simp add: create_default_units_def units_ok_def default_units_def)

lemma run_units_ok: "units_ok db \<Longrightarrow> units_ok (run e op db)"
proof (cases op)
  case (SaveQAReport req qa_type)
  assume "units_ok db"
  with SaveQAReport show ?thesis by (simp add: units_ok_def save_qa_report_units)
next
  case (SaveUnit req)
  assume "units_ok db"
  with SaveUnit show ?thesis by (simp add: save_unit_units_ok)
next
  case (SaveOutputReading req)
  assume "units_ok db"
  with SaveOutputReading show ?thesis by (simp add: units_ok_def save_output_reading_units)
next
  case CreateDefaultUnits
  assume "units_ok db"
  with CreateDefaultUnits show ?thesis by (simp add: create_default_units_ok)
qed

lemma select_unit_new:
  assumes "form req ''unit_id'' = None \<or> form req ''unit_id'' = Some [] \<or>
           form req ''unit_id'' = Some ''new''"
  shows "select_unit e req db = Inr (blank_unit db)"
  using assms by (elim disjE) (simp_all add: select_unit_def)

lemma assign_unit_result:
  "assign_unit e req unit0 nm =
     (if (case form req ''install_date'' of None \<Rightarrow> False
          | Some ds \<Rightarrow> ds \<noteq> [] \<and> strptime e ds = None)
      then Inl ValueError else assign_unit e req unit0 nm) \<and>
   ((case form req ''install_date'' of None \<Rightarrow> False
          | Some ds \<Rightarrow> ds \<noteq> [] \<and> strptime e ds = None) \<or>
    (\<exists>unit. assign_unit e req unit0 nm = Inr unit))"
  by (simp add: assign_unit_def Let_def split: option.splits)

lemma save_unit_duplicate:
  assumes user: "get_current_user req db \<noteq> None"
      and new: "form req ''unit_id'' = None \<or> form req ''unit_id'' = Some [] \<or>
                form req ''unit_id'' = Some ''new''"
      and nm: "form req ''name'' = Some nm"
      and dup: "nm \<in> set (map u_name (units db))"
  shows "save_unit e req db =
           (Inl (if (case form req ''install_date'' of None \<Rightarrow> False
                     | Some ds \<Rightarrow> ds \<noteq> [] \<and> strptime e ds = None)
                 then ValueError else IntegrityError), db)"
proof -
  let ?bad = "case form req ''install_date'' of None \<Rightarrow> False
              | Some ds \<Rightarrow> ds \<noteq> [] \<and> strptime e ds = None"
  from user obtain user' where u: "get_current_user req db = Some user'" by blast
  note sel = select_unit_new [OF new, of e db]
  from nm have fg: "form_get req ''name'' [] = nm" by (simp add: form_get_def)
  show ?thesis
  proof (cases ?bad)
    case True
    with assign_unit_result [of e req "blank_unit db" nm]
    have "assign_unit e req (blank_unit db) nm = Inl ValueError" by metis
    with u sel fg True show ?thesis by (simp add: save_unit_def)
  next
    case False
    with assign_unit_result [of e req "blank_unit db" nm]
    obtain unit where asg: "assign_unit e req (blank_unit db) nm = Inr unit" by blast
    from assign_unit_fields [OF asg] have "u_id unit = u_id (blank_unit db)" by simp
    with blank_unit_fresh [of db] have "u_id unit \<notin> u_id ` set (units db)" by simp
    then have "\<forall>x \<in> set (units db). u_id x \<noteq> u_id unit" by (metis imageI)
    then have "filter (\<lambda>x. u_id x \<noteq> u_id unit) (units db) = units db" by simp
    with dup have "nm \<in> set (map u_name (filter (\<lambda>x. u_id x \<noteq> u_id unit) (units db)))"
      by simp
    with u sel fg asg nm False show ?thesis by (simp add: save_unit_def)
  qed
qed

lemmas unit_ex_defs = save_unit_def select_unit_def assign_unit_def write_unit_def
  blank_unit_def parse_energies_def env0_def unit_request_def db_retired_def db0_def
  physicist_def default_units_def get_current_user_def first_def form_get_def next_id_def
  log_audit_def units_ok_def Let_def

text \<open>
  C10. In a store whose units have pairwise distinct keys and pairwise distinct names
  (whatever their \<^verbatim>\<open>active\<close> flags), every writing operation leaves the units so;
  and creating a unit under a name that some unit already holds fails and leaves the
  store unchanged. The failure is the \<^verbatim>\<open>IntegrityError\<close> of the \<^verbatim>\<open>UNIQUE\<close>
  constraint, unless the submitted install date is malformed, which is detected first.
\<close>

theorem unit_names_unique:
  assumes "units_ok db"
  shows "units_ok (run e op db) \<and>
         (get_current_user req db \<noteq> None \<and>
          (form req ''unit_id'' = None \<or> form req ''unit_id'' = Some [] \<or>
           form req ''unit_id'' = Some ''new'') \<and>
          form req ''name'' = Some nm \<and> nm \<in> set (map u_name (units db))
          \<longrightarrow> save_unit e req db =
                (Inl (if (case form req ''install_date'' of None \<Rightarrow> False
                          | Some ds \<Rightarrow> ds \<noteq> [] \<and> strptime e ds = None)
                      then ValueError else IntegrityError), db))"
  using run_units_ok [OF assms, of e op] save_unit_duplicate [of req db nm e] by blast

text \<open>
  \<^verbatim>\<open>TrueBeam\<close> is retired; a new unit of that name is refused, one named
  \<^verbatim>\<open>Halcyon\<close> is appended.
\<close>

theorem unit_names_unique_witness:
  "units_ok db_retired \<and>
   map u_active (units db_retired) = [True, False] \<and>
   save_unit env0 (unit_request ''TrueBeam'') db_retired = (Inl IntegrityError, db_retired) \<and>
   map u_name (units (run env0 (SaveUnit (unit_request ''Halcyon'')) db_retired))
     = [''Linac 1'', ''TrueBeam'', ''Halcyon'']"
proof -
  have ok: "units_ok db_retired"
    by (simp add: units_ok_def db_retired_def db0_def default_units_def)
  have "save_unit env0 (unit_request ''TrueBeam'') db_retired = (Inl IntegrityError, db_retired)"
    using unit_names_unique [OF ok, of env0 "SaveUnit (unit_request ''Halcyon'')"
        "unit_request ''TrueBeam''" "''TrueBeam''"]
    by (simp add: unit_request_def db_retired_def db0_def default_units_def physicist_def
          get_current_user_def first_def)
  moreover have "map u_name (units (run env0 (SaveUnit (unit_request ''Halcyon'')) db_retired))
     = [''Linac 1'', ''TrueBeam'', ''Halcyon'']"
    by (simp add: unit_ex_defs)
  moreover have "map u_active (units db_retired) = [True, False]"
    by (simp add: db_retired_def db0_def default_units_def)
  ultimately show ?thesis using ok by blast
qed

end
